theory Spec2Isabelle
  imports Main
begin

section \<open>Python values used by functions.py\<close>

text \<open>
  Exceptions are values. \<open>ValueError\<close> and \<open>OverflowError\<close> are the two the interpreter's
  \<open>int\<close> and \<open>datetime\<close> raise on the paths modelled here; \<open>Raised msg\<close> is any exception
  of a backend call (credentials, calendar, mail), carrying \<open>str(e)\<close>.
\<close>

datatype py_exception = ValueError | OverflowError | Raised string

subsection \<open>str.lower and str.strip\<close>

text \<open>
  A string is a list of characters, each a code point below 256; Python strings with other
  code points are outside the model. On these \<open>lower\<close> and \<open>strip\<close> are Python's:
  \<open>A..Z\<close> map to \<open>a..z\<close> and the capital letters 0xC0..0xDE (0xD7, the multiplication
  sign, apart) to the letters 0x20 above them; the characters for which \<open>str.isspace\<close>
  holds (0x09..0x0D, 0x1C..0x1F, 0x20, 0x85, 0xA0) are trimmed at both ends.
\<close>

definition capital_letters :: string where
  "capital_letters =
     ''ABCDEFGHIJKLMNOPQRSTUVWXYZ'' @
         [CHR 0xC0, CHR 0xC1, CHR 0xC2, CHR 0xC3, CHR 0xC4, CHR 0xC5, CHR 0xC6, CHR 0xC7,
          CHR 0xC8, CHR 0xC9, CHR 0xCA, CHR 0xCB, CHR 0xCC, CHR 0xCD, CHR 0xCE, CHR 0xCF,
          CHR 0xD0, CHR 0xD1, CHR 0xD2, CHR 0xD3, CHR 0xD4, CHR 0xD5, CHR 0xD6, CHR 0xD8,
          CHR 0xD9, CHR 0xDA, CHR 0xDB, CHR 0xDC, CHR 0xDD, CHR 0xDE]"

definition small_letters :: string where
  "small_letters =
     ''abcdefghijklmnopqrstuvwxyz'' @
         [CHR 0xE0, CHR 0xE1, CHR 0xE2, CHR 0xE3, CHR 0xE4, CHR 0xE5, CHR 0xE6, CHR 0xE7,
          CHR 0xE8, CHR 0xE9, CHR 0xEA, CHR 0xEB, CHR 0xEC, CHR 0xED, CHR 0xEE, CHR 0xEF,
          CHR 0xF0, CHR 0xF1, CHR 0xF2, CHR 0xF3, CHR 0xF4, CHR 0xF5, CHR 0xF6, CHR 0xF8,
          CHR 0xF9, CHR 0xFA, CHR 0xFB, CHR 0xFC, CHR 0xFD, CHR 0xFE]"

definition lower_char :: "char \<Rightarrow> char" where
  "lower_char c =
     (case map_of (zip capital_letters small_letters) c of
        Some d \<Rightarrow> d
      | None \<Rightarrow> c)"

definition lower :: "string \<Rightarrow> string" where
  "lower s = map lower_char s"

definition isspace :: "char \<Rightarrow> bool" where
  "isspace c \<longleftrightarrow>
     c \<in> set [CHR 0x09, CHR 0x0A, CHR 0x0B, CHR 0x0C, CHR 0x0D,
              CHR 0x1C, CHR 0x1D, CHR 0x1E, CHR 0x1F, CHR '' '', CHR 0x85, CHR 0xA0]"

definition strip :: "string \<Rightarrow> string" where
  "strip s = rev (dropWhile isspace (rev (dropWhile isspace s)))"

subsection \<open>datetime and timedelta\<close>

text \<open>
  A naive \<open>datetime\<close> is its proleptic Gregorian day number (\<open>date.toordinal()\<close>, day 1 is
  0001-01-01, a Monday) and its time of day. \<open>MAXORDINAL\<close> is the day number of 9999-12-31;
  arithmetic that leaves \<open>1..MAXORDINAL\<close> raises \<open>OverflowError\<close>.
\<close>

record datetime =
  ordinal :: int
  hour :: int
  minute :: int
  second :: int
  microsecond :: int

record timedelta =
  days :: int
  seconds :: int
  microseconds :: int

definition MAXORDINAL :: int where
  "MAXORDINAL = 3652059"

text \<open>\<open>date.weekday()\<close>: Monday is 0, Sunday is 6.\<close>

definition weekday :: "datetime \<Rightarrow> int" where
  "weekday d = (ordinal d + 6) mod 7"

text \<open>
  \<open>dt + timedelta(days=k)\<close>. The \<open>timedelta\<close> constructor raises \<open>OverflowError\<close> beyond
  999999999 days, the addition when the day leaves the calendar.
\<close>

definition add_days :: "datetime \<Rightarrow> int \<Rightarrow> py_exception + datetime" where
  "add_days dt k =
     (if 999999999 < \<bar>k\<bar> then Inl OverflowError
      else let n = ordinal dt + k
           in if 1 \<le> n \<and> n \<le> MAXORDINAL then Inr (dt\<lparr>ordinal := n\<rparr>) else Inl OverflowError)"

text \<open>
  \<open>dt + timedelta(minutes=k)\<close>: the delta is normalised to whole days and seconds of a day,
  the seconds are added to the time of day and the carry goes to the day number.
\<close>

definition add_minutes :: "datetime \<Rightarrow> int \<Rightarrow> py_exception + datetime" where
  "add_minutes dt k =
     (let delta_days = (k * 60) div 86400; delta_seconds = (k * 60) mod 86400
      in if 999999999 < \<bar>delta_days\<bar> then Inl OverflowError
         else let t = hour dt * 3600 + minute dt * 60 + second dt + delta_seconds;
                  n = ordinal dt + delta_days + t div 86400;
                  r = t mod 86400
              in if 1 \<le> n \<and> n \<le> MAXORDINAL
                 then Inr \<lparr>ordinal = n, hour = r div 3600, minute = (r mod 3600) div 60,
                           second = r mod 60, microsecond = microsecond dt\<rparr>
                 else Inl OverflowError)"

text \<open>
  \<open>dt.replace(hour=h, minute=m, second=s, microsecond=us)\<close> of the C implementation: an
  argument that does not fit a C \<open>int\<close> raises \<open>OverflowError\<close>, one outside its field's
  range raises \<open>ValueError\<close>.
\<close>

definition fits_c_int :: "int \<Rightarrow> bool" where
  "fits_c_int n \<longleftrightarrow> - (2 ^ 31) \<le> n \<and> n < 2 ^ 31"

definition replace :: "datetime \<Rightarrow> int \<Rightarrow> int \<Rightarrow> int \<Rightarrow> int \<Rightarrow> py_exception + datetime" where
  "replace dt h m s us =
     (if \<not> (fits_c_int h \<and> fits_c_int m \<and> fits_c_int s \<and> fits_c_int us) then Inl OverflowError
      else if 0 \<le> h \<and> h \<le> 23 \<and> 0 \<le> m \<and> m \<le> 59 \<and> 0 \<le> s \<and> s \<le> 59 \<and> 0 \<le> us \<and> us \<le> 999999
      then Inr (dt\<lparr>hour := h, minute := m, second := s, microsecond := us\<rparr>)
      else Inl ValueError)"

text \<open>
  \<open>a - b\<close> of two datetimes is the normalised \<open>timedelta\<close> of the differences in days,
  seconds and microseconds; \<open>a < b\<close> compares day, then time of day.
\<close>

definition normalised :: "int \<Rightarrow> int \<Rightarrow> int \<Rightarrow> timedelta" where
  "normalised d s us =
     (let total = (d * 86400 + s) * 1000000 + us
      in \<lparr>days = total div 86400000000, seconds = (total div 1000000) mod 86400,
          microseconds = total mod 1000000\<rparr>)"

definition seconds_of_day :: "datetime \<Rightarrow> int" where
  "seconds_of_day d = second d + minute d * 60 + hour d * 3600"

definition dt_sub :: "datetime \<Rightarrow> datetime \<Rightarrow> timedelta" where
  "dt_sub a b =
     normalised (ordinal a - ordinal b) (seconds_of_day a - seconds_of_day b)
       (microsecond a - microsecond b)"

definition dt_less :: "datetime \<Rightarrow> datetime \<Rightarrow> bool" where
  "dt_less a b \<longleftrightarrow>
     ordinal a < ordinal b \<or>
     (ordinal a = ordinal b \<and>
      (hour a < hour b \<or>
       (hour a = hour b \<and>
        (minute a < minute b \<or>
         (minute a = minute b \<and>
          (second a < second b \<or> (second a = second b \<and> microsecond a < microsecond b)))))))"

section \<open>parse_relative_date\<close>

text \<open>
  The reading of \<open>datetime.now()\<close> is the first argument. The seven weekday branches of the
  source differ only in the weekday number; \<open>next_weekday\<close> is their common body.
\<close>

definition next_weekday :: "datetime \<Rightarrow> int \<Rightarrow> py_exception + datetime" where
  "next_weekday now w =
     (let days_ahead = w - weekday now;
          days_ahead = (if days_ahead \<le> 0 then days_ahead + 7 else days_ahead)
      in add_days now days_ahead)"

definition target_date :: "datetime \<Rightarrow> string \<Rightarrow> py_exception + datetime" where
  "target_date now date_lower =
     (if date_lower \<in> set [''today'', ''now''] then Inr now
      else if date_lower = ''tomorrow'' then add_days now 1
      else if date_lower = ''yesterday'' then add_days now (- 1)
      else if date_lower \<in> set [''next week'', ''nextweek''] then add_days now 7
      else if date_lower \<in> set [''next monday'', ''monday''] then next_weekday now 0
      else if date_lower \<in> set [''next tuesday'', ''tuesday''] then next_weekday now 1
      else if date_lower \<in> set [''next wednesday'', ''wednesday''] then next_weekday now 2
      else if date_lower \<in> set [''next thursday'', ''thursday''] then next_weekday now 3
      else if date_lower \<in> set [''next friday'', ''friday''] then next_weekday now 4
      else if date_lower \<in> set [''next saturday'', ''saturday''] then next_weekday now 5
      else if date_lower \<in> set [''next sunday'', ''sunday''] then next_weekday now 6
      else Inr now)"

definition parse_relative_date :: "datetime \<Rightarrow> string \<Rightarrow> py_exception + datetime \<times> datetime" where
  "parse_relative_date now date_description =
     (let date_lower = strip (lower date_description)
      in case target_date now date_lower of
           Inl e \<Rightarrow> Inl e
         | Inr target \<Rightarrow>
             (case replace target 0 0 0 0 of
                Inl e \<Rightarrow> Inl e
              | Inr day_start \<Rightarrow>
                  (case add_days day_start 1 of
                     Inl e \<Rightarrow> Inl e
                   | Inr day_end \<Rightarrow> Inr (day_start, day_end))))"

text \<open>
  Vocabulary of the properties: the weekday names in the order of their numbers, the day
  window that starts at midnight of day \<open>n\<close>, and the clock readings from which every
  branch of \<open>parse_relative_date\<close> stays inside the calendar (the second day of year 1 up
  to eight days before the end of year 9999).
\<close>

definition weekday_names :: "string list" where
  "weekday_names =
     [''monday'', ''tuesday'', ''wednesday'', ''thursday'', ''friday'', ''saturday'', ''sunday'']"

definition midnight :: "int \<Rightarrow> datetime" where
  "midnight n = \<lparr>ordinal = n, hour = 0, minute = 0, second = 0, microsecond = 0\<rparr>"

definition day_window :: "int \<Rightarrow> datetime \<times> datetime" where
  "day_window n = (midnight n, midnight (n + 1))"

definition clock_in_range :: "datetime \<Rightarrow> bool" where
  "clock_in_range now \<longleftrightarrow> 2 \<le> ordinal now \<and> ordinal now + 8 \<le> MAXORDINAL"

text \<open>
  The tokens the specification lists as recognised, and the tokens the branches of the source
  test for: the source also accepts \<open>nextweek\<close>. \<open>wednesday_morning\<close> is the reading
  2024-01-10 10:23:45.000123, a Wednesday, used in the examples.
\<close>

definition spec_recognized_tokens :: "string list" where
  "spec_recognized_tokens =
     [''today'', ''now'', ''tomorrow'', ''yesterday'', ''next week''] @
     weekday_names @ map (\<lambda>w. ''next '' @ w) weekday_names"

definition recognized_tokens :: "string list" where
  "recognized_tokens = ''nextweek'' # spec_recognized_tokens"

definition wednesday_morning :: datetime where
  "wednesday_morning = \<lparr>ordinal = 738895, hour = 10, minute = 23, second = 45, microsecond = 123\<rparr>"

section \<open>Strings and numbers of the booking\<close>

text \<open>
  \<open>s.split(':')\<close>: the pieces between the colons, at least one piece.
\<close>

fun split_colon :: "string \<Rightarrow> string list" where
  "split_colon [] = [[]]"
| "split_colon (c # cs) =
     (if c = CHR '':'' then [] # split_colon cs
      else (case split_colon cs of
              piece # pieces \<Rightarrow> (c # piece) # pieces
            | [] \<Rightarrow> [[c]]))"

text \<open>
  \<open>int(s)\<close>, \<open>None\<close> standing for \<open>ValueError\<close>: blanks around the literal are skipped
  (0x09..0x0D and 0x20, and the spaces 0x85 and 0xA0, which the conversion first turns into
  0x20; 0x1C..0x1F are no blanks here), one sign is allowed, the digits are \<open>0..9\<close> and
  may be grouped by single underscores, and a literal of more than 4300 digits is refused
  (the interpreter's default limit for converting a string to an integer).
\<close>

definition int_space :: "char \<Rightarrow> bool" where
  "int_space c \<longleftrightarrow>
     c \<in> set [CHR 0x09, CHR 0x0A, CHR 0x0B, CHR 0x0C, CHR 0x0D, CHR '' '', CHR 0x85, CHR 0xA0]"

definition digit_value :: "char \<Rightarrow> int option" where
  "digit_value c =
     map_of [(CHR ''0'', 0), (CHR ''1'', 1), (CHR ''2'', 2), (CHR ''3'', 3), (CHR ''4'', 4),
             (CHR ''5'', 5), (CHR ''6'', 6), (CHR ''7'', 7), (CHR ''8'', 8), (CHR ''9'', 9)] c"

fun digits_value :: "int \<Rightarrow> string \<Rightarrow> int option" where
  "digits_value acc [] = Some acc"
| "digits_value acc (c # cs) =
     (if c = CHR ''_'' then digits_value acc cs
      else (case digit_value c of
              None \<Rightarrow> None
            | Some d \<Rightarrow> digits_value (acc * 10 + d) cs))"

fun double_underscore :: "string \<Rightarrow> bool" where
  "double_underscore (a # b # cs) =
     ((a = CHR ''_'' \<and> b = CHR ''_'') \<or> double_underscore (b # cs))"
| "double_underscore cs = False"

definition int_literal :: "string \<Rightarrow> int option" where
  "int_literal body =
     (if body = [] \<or> hd body = CHR ''_'' \<or> last body = CHR ''_'' \<or> double_underscore body \<or>
         4300 < length (filter (\<lambda>c. c \<noteq> CHR ''_'') body)
      then None
      else digits_value 0 body)"

definition py_int :: "string \<Rightarrow> int option" where
  "py_int s =
     (let t = rev (dropWhile int_space (rev (dropWhile int_space s)))
      in case t of
           [] \<Rightarrow> None
         | c # cs \<Rightarrow>
             if c = CHR ''-'' then map_option uminus (int_literal cs)
             else if c = CHR ''+'' then int_literal cs
             else int_literal t)"

text \<open>\<open>str(n)\<close> of an integer, and the two-digit fields of \<open>strftime\<close>.\<close>

definition digit_char :: "nat \<Rightarrow> char" where
  "digit_char n = ''0123456789'' ! (n mod 10)"

fun str_nat :: "nat \<Rightarrow> string" where
  "str_nat n = (if n < 10 then [digit_char n] else str_nat (n div 10) @ [digit_char n])"

definition str_int :: "int \<Rightarrow> string" where
  "str_int i = (if i < 0 then CHR ''-'' # str_nat (nat (- i)) else str_nat (nat i))"

definition two_digits :: "int \<Rightarrow> string" where
  "two_digits i = [digit_char (nat i div 10), digit_char (nat i)]"

text \<open>\<open>p in s\<close> and \<open>s.startswith(p)\<close>.\<close>

fun startswith :: "string \<Rightarrow> string \<Rightarrow> bool" where
  "startswith s [] = True"
| "startswith [] (p # ps) = False"
| "startswith (c # cs) (p # ps) = (c = p \<and> startswith cs ps)"

fun contains :: "string \<Rightarrow> string \<Rightarrow> bool" where
  "contains [] p = (p = [])"
| "contains (c # cs) p = (startswith (c # cs) p \<or> contains cs p)"

subsection \<open>strftime\<close>

text \<open>
  The calendar date of a day number, as the library computes it from the cycles of 400, 100,
  4 and 1 years, and the \<open>strftime\<close> formats the source uses, with the names of the C locale.
\<close>

definition days_before_month :: "int \<Rightarrow> int" where
  "days_before_month m = [0, 0, 31, 59, 90, 120, 151, 181, 212, 243, 273, 304, 334] ! nat m"

definition days_in_month :: "int \<Rightarrow> int" where
  "days_in_month m = [0, 31, 28, 31, 30, 31, 30, 31, 31, 30, 31, 30, 31] ! nat m"

definition ord2ymd :: "int \<Rightarrow> int \<times> int \<times> int" where
  "ord2ymd n0 =
     (let n = n0 - 1;
          n400 = n div 146097; n = n mod 146097;
          n100 = n div 36524; n = n mod 36524;
          n4 = n div 1461; n = n mod 1461;
          n1 = n div 365; n = n mod 365;
          year = n400 * 400 + 1 + n100 * 100 + n4 * 4 + n1
      in if n1 = 4 \<or> n100 = 4 then (year - 1, 12, 31)
         else let leapyear = (n1 = 3 \<and> (n4 \<noteq> 24 \<or> n100 = 3));
                  month = (n + 50) div 32;
                  preceding = days_before_month month + (if 2 < month \<and> leapyear then 1 else 0)
              in if n < preceding
                 then let month = month - 1;
                          preceding = preceding -
                            (days_in_month month + (if month = 2 \<and> leapyear then 1 else 0))
                      in (year, month, n - preceding + 1)
                 else (year, month, n - preceding + 1))"

definition day_name :: "datetime \<Rightarrow> string" where
  "day_name d =
     [''Monday'', ''Tuesday'', ''Wednesday'', ''Thursday'', ''Friday'', ''Saturday'', ''Sunday'']
       ! nat (weekday d)"

definition month_name :: "int \<Rightarrow> string" where
  "month_name m =
     [''January'', ''February'', ''March'', ''April'', ''May'', ''June'', ''July'', ''August'',
      ''September'', ''October'', ''November'', ''December''] ! nat (m - 1)"

text \<open>\<open>%I:%M %p\<close>\<close>

definition strftime_I_M_p :: "datetime \<Rightarrow> string" where
  "strftime_I_M_p d =
     two_digits (if hour d mod 12 = 0 then 12 else hour d mod 12) @ '':'' @
     two_digits (minute d) @ '' '' @ (if hour d < 12 then ''AM'' else ''PM'')"

text \<open>\<open>%A, %B %d\<close>\<close>

definition strftime_A_B_d :: "datetime \<Rightarrow> string" where
  "strftime_A_B_d d =
     (case ord2ymd (ordinal d) of
        (y, m, dd) \<Rightarrow> day_name d @ '', '' @ month_name m @ '' '' @ two_digits dd)"

text \<open>\<open>%B %d, %Y\<close> and \<open>%A, %B %d, %Y\<close>\<close>

definition strftime_B_d_Y :: "datetime \<Rightarrow> string" where
  "strftime_B_d_Y d =
     (case ord2ymd (ordinal d) of
        (y, m, dd) \<Rightarrow> month_name m @ '' '' @ two_digits dd @ '', '' @ str_int y)"

definition strftime_A_B_d_Y :: "datetime \<Rightarrow> string" where
  "strftime_A_B_d_Y d = day_name d @ '', '' @ strftime_B_d_Y d"

text \<open>\<open>%Y-%m-%dT%H:%M:%S\<close>\<close>

definition strftime_rfc3339 :: "datetime \<Rightarrow> string" where
  "strftime_rfc3339 d =
     (case ord2ymd (ordinal d) of
        (y, m, dd) \<Rightarrow>
          str_int y @ ''-'' @ two_digits m @ ''-'' @ two_digits dd @ ''T'' @
          two_digits (hour d) @ '':'' @ two_digits (minute d) @ '':'' @ two_digits (second d))"

section \<open>The tool calls\<close>

text \<open>
  The arguments of a call are a dictionary: a key may be absent, and \<open>get\<close> applies the
  default of the source. The values have the types of the tool schema (strings, and an
  integer duration, on which \<open>int\<close> is the identity).
\<close>

record arguments =
  title :: "string option"
  date_description :: "string option"
  start_time :: "string option"
  duration_minutes :: "int option"
  description :: "string option"
  customer_email :: "string option"

definition get :: "'a option \<Rightarrow> 'a \<Rightarrow> 'a" where
  "get v dflt = (case v of None \<Rightarrow> dflt | Some x \<Rightarrow> x)"

text \<open>
  What the calls exchange with the calendar and the mail service: the body of the inserted
  event, the confirmation mail (recipient, subject and the values its two bodies interpolate),
  a raw entry of a listing (the \<open>summary\<close> key and the \<open>dateTime\<close> keys under \<open>start\<close> and
  \<open>end\<close>, each possibly absent) and an entry as the listing reports it.
\<close>

record event_time =
  dateTime :: string
  timeZone :: string

record event =
  ev_summary :: string
  ev_description :: string
  ev_start :: event_time
  ev_end :: event_time

record mail =
  mail_to :: string
  mail_subject :: string
  mail_date :: string
  mail_time :: string
  mail_duration :: string

record raw_event =
  raw_summary :: "string option"
  raw_start :: "string option"
  raw_end :: "string option"

record timed_event =
  view_summary :: string
  view_start_time :: string
  view_end_time :: string

text \<open>
  The surroundings of one call. \<open>clock\<close> is the reading of \<open>datetime.now()\<close> in
  \<open>parse_relative_date\<close>; \<open>utcoffset\<close> is the local UTC offset in seconds, a whole number
  of seconds of magnitude below one day. Each backend call either returns or raises:
  \<open>credentials_error\<close> (\<open>get_google_credentials()\<close>), \<open>build_calendar_error\<close> and
  \<open>build_gmail_error\<close> (\<open>build\<close>), \<open>insert_error\<close> (\<open>events().insert(...).execute()\<close>) and
  \<open>send_error\<close> (composing the message and \<open>messages().send(...).execute()\<close>) hold the
  exception, \<open>None\<close> when the call returns; \<open>list_result\<close> is the outcome of
  \<open>events().list(...).execute()\<close> with its \<open>items\<close>. \<open>fromisoformat_local s\<close> is
  \<open>datetime.fromisoformat(s).astimezone()\<close> and \<open>to_utc_iso d\<close> is
  \<open>d.astimezone(timezone.utc).isoformat().replace('+00:00', 'Z')\<close>; both read the time
  zone database, and both raise on a value they cannot convert (the second one when the UTC
  time of \<open>d\<close> leaves the calendar). \<open>interpreter_text\<close> is \<open>str(e)\<close> for the
  interpreter's own exceptions.
\<close>

record environment =
  clock :: datetime
  utcoffset :: int
  interpreter_text :: "py_exception \<Rightarrow> string"
  credentials_error :: "py_exception option"
  build_calendar_error :: "py_exception option"
  insert_error :: "py_exception option"
  build_gmail_error :: "py_exception option"
  send_error :: "py_exception option"
  list_result :: "py_exception + raw_event list"
  fromisoformat_local :: "string \<Rightarrow> py_exception + datetime"
  to_utc_iso :: "datetime \<Rightarrow> py_exception + string"

text \<open>
  The effects of a call, in the order they happen: the spoken acknowledgement
  (\<open>push_frame\<close>), the backend calls and the result handed to \<open>result_callback\<close>. Log lines
  are not recorded. A reply is the string a call returns; \<open>Json_events xs\<close> stands for the
  string \<open>json.dumps(xs, indent=2)\<close>.
\<close>

datatype reply = Text string | Json_events "timed_event list"

datatype effect =
    Speak string
  | Get_google_credentials
  | Build string
  | Events_insert event
  | Events_list string string
  | Messages_send mail
  | Result_callback reply

definition str_e :: "environment \<Rightarrow> py_exception \<Rightarrow> string" where
  "str_e env e = (case e of Raised msg \<Rightarrow> msg | _ \<Rightarrow> interpreter_text env e)"

subsection \<open>create_calendar_event\<close>

text \<open>
  Lines 242 to 244: the two integers of \<open>start_time.split(':')\<close>, substituted into the start
  of the day, and the end of the event. Any other number of pieces, or a piece that is no
  integer, is a \<open>ValueError\<close> of the unpacking or of \<open>int\<close>.
\<close>

definition parse_start_time ::
  "datetime \<Rightarrow> string \<Rightarrow> int \<Rightarrow> py_exception + datetime \<times> datetime" where
  "parse_start_time day_start start_time_str duration =
     (case map py_int (split_colon start_time_str) of
        [Some h, Some m] \<Rightarrow>
          (case replace day_start h m (second day_start) (microsecond day_start) of
             Inl e \<Rightarrow> Inl e
           | Inr event_start \<Rightarrow>
               (case add_minutes event_start duration of
                  Inl e \<Rightarrow> Inl e
                | Inr event_end \<Rightarrow> Inr (event_start, event_end)))
      | _ \<Rightarrow> Inl ValueError)"

definition invalid_time_format :: "string \<Rightarrow> string" where
  "invalid_time_format start_time_str =
     ''Invalid time format: '' @ start_time_str @ ''. Please use HH:MM format (e.g., '' @
     [CHR 0x27] @ ''14:00'' @ [CHR 0x27] @ '')''"

text \<open>
  Lines 253 to 261: \<open>int(local_offset.total_seconds() / 3600)\<close> truncates toward zero (the
  quotient of a whole number of seconds below one day by 3600 is computed exactly enough by
  the floating-point division for the truncation to be that of the integers), and the label
  reverses the sign.
\<close>

definition offset_hours :: "int \<Rightarrow> int" where
  "offset_hours s = (if 0 \<le> s then s div 3600 else - (- s div 3600))"

definition local_tz_str :: "int \<Rightarrow> string" where
  "local_tz_str h = (if 0 \<le> h then ''Etc/GMT-'' @ str_int h else ''Etc/GMT+'' @ str_int \<bar>h\<bar>)"

definition event_body :: "string \<Rightarrow> string \<Rightarrow> datetime \<Rightarrow> datetime \<Rightarrow> string \<Rightarrow> event" where
  "event_body summary details start_dt end_dt tz =
     \<lparr>ev_summary = summary, ev_description = details,
      ev_start = \<lparr>dateTime = strftime_rfc3339 start_dt, timeZone = tz\<rparr>,
      ev_end = \<lparr>dateTime = strftime_rfc3339 end_dt, timeZone = tz\<rparr>\<rparr>"

definition failed_create :: "environment \<Rightarrow> py_exception \<Rightarrow> effect list \<Rightarrow> string \<times> effect list" where
  "failed_create env e trace =
     (let error_result = ''Error creating calendar event: '' @ str_e env e
      in (error_result, trace @ [Result_callback (Text error_result)]))"

text \<open>
  Lines 291 to 362: the confirmation mail, sent only to a non-empty address; an exception
  of the mail service leaves \<open>email_sent\<close> false and goes no further.
\<close>

definition confirmation_mail :: "string \<Rightarrow> datetime \<Rightarrow> datetime \<Rightarrow> int \<Rightarrow> mail" where
  "confirmation_mail address start_dt end_dt duration =
     \<lparr>mail_to = address,
      mail_subject = ''Appointment Confirmation - '' @ strftime_B_d_Y start_dt,
      mail_date = strftime_A_B_d_Y start_dt,
      mail_time = strftime_I_M_p start_dt @ '' - '' @ strftime_I_M_p end_dt,
      mail_duration = str_int duration @ '' minutes''\<rparr>"

definition send_confirmation ::
  "environment \<Rightarrow> string \<Rightarrow> datetime \<Rightarrow> datetime \<Rightarrow> int \<Rightarrow> bool \<times> effect list" where
  "send_confirmation env address start_dt end_dt duration =
     (if address = [] then (False, [])
      else case build_gmail_error env of
             Some e \<Rightarrow> (False, [Build ''gmail''])
           | None \<Rightarrow>
               (case send_error env of
                  Some e \<Rightarrow>
                    (False,
                     [Build ''gmail'', Messages_send (confirmation_mail address start_dt end_dt duration)])
                | None \<Rightarrow>
                    (True,
                     [Build ''gmail'', Messages_send (confirmation_mail address start_dt end_dt duration)])))"

definition success_message :: "string \<Rightarrow> datetime \<Rightarrow> datetime \<Rightarrow> string" where
  "success_message summary start_dt end_dt =
     ''Event created successfully: '' @ [CHR 0x27] @ summary @ [CHR 0x27] @ '' on '' @
     strftime_A_B_d start_dt @ '' from '' @ strftime_I_M_p start_dt @ '' to '' @
     strftime_I_M_p end_dt"

text \<open>Lines 251 to 374: the time zone label, the insertion, the mail and the result.\<close>

definition submit_event ::
  "environment \<Rightarrow> string \<Rightarrow> string \<Rightarrow> string \<Rightarrow> int \<Rightarrow> datetime \<Rightarrow> datetime \<Rightarrow> effect list
     \<Rightarrow> string \<times> effect list" where
  "submit_event env summary details address duration start_dt end_dt trace =
     (let tz = local_tz_str (offset_hours (utcoffset env));
          body = event_body summary details start_dt end_dt tz
      in case credentials_error env of
           Some e \<Rightarrow> failed_create env e (trace @ [Get_google_credentials])
         | None \<Rightarrow>
             (case build_calendar_error env of
                Some e \<Rightarrow> failed_create env e (trace @ [Get_google_credentials, Build ''calendar''])
              | None \<Rightarrow>
                  (case insert_error env of
                     Some e \<Rightarrow>
                       failed_create env e
                         (trace @ [Get_google_credentials, Build ''calendar'', Events_insert body])
                   | None \<Rightarrow>
                       (case send_confirmation env address start_dt end_dt duration of
                          (email_sent, mail_trace) \<Rightarrow>
                            let result = success_message summary start_dt end_dt @
                                  (if email_sent then ''. Confirmation email sent to '' @ address
                                   else [])
                            in (result,
                                trace @ [Get_google_credentials, Build ''calendar'', Events_insert body] @
                                mail_trace @ [Result_callback (Text result)])))))"

text \<open>
  The whole call. The handler of \<open>ValueError\<close> around lines 242 to 244 returns the message
  about the time format; every other exception reaches the outer handler.
\<close>

definition create_calendar_event :: "environment \<Rightarrow> arguments \<Rightarrow> string \<times> effect list" where
  "create_calendar_event env args =
     (let summary = get (title args) ''Untitled Event'';
          day = get (date_description args) ''today'';
          start_time_str = get (start_time args) ''09:00'';
          duration = get (duration_minutes args) 60;
          details = get (description args) [];
          address = get (customer_email args) [];
          trace = [Speak (''Booking your appointment for '' @ day)]
      in case parse_relative_date (clock env) day of
           Inl e \<Rightarrow> failed_create env e trace
         | Inr (day_start, day_end) \<Rightarrow>
             (case parse_start_time day_start start_time_str duration of
                Inl e \<Rightarrow>
                  if e = ValueError
                  then let error_msg = invalid_time_format start_time_str
                       in (error_msg, trace @ [Result_callback (Text error_msg)])
                  else failed_create env e trace
              | Inr (start_dt, end_dt) \<Rightarrow>
                  submit_event env summary details address duration start_dt end_dt trace))"

subsection \<open>get_calendar_events\<close>

text \<open>
  \<open>s.replace('Z', '+00:00')\<close>, the truth value of an optional string, and lines 175 to 195:
  the loop over the raw entries, appending the timed ones to \<open>filtered_events\<close>.
\<close>

definition replace_Z :: "string \<Rightarrow> string" where
  "replace_Z s = concat (map (\<lambda>c. if c = CHR ''Z'' then ''+00:00'' else [c]) s)"

definition truthy :: "string option \<Rightarrow> bool" where
  "truthy v \<longleftrightarrow> (case v of None \<Rightarrow> False | Some s \<Rightarrow> s \<noteq> [])"

definition timed :: "raw_event \<Rightarrow> bool" where
  "timed entry \<longleftrightarrow> truthy (raw_start entry) \<and> truthy (raw_end entry)"

fun filter_loop ::
  "(string \<Rightarrow> py_exception + datetime) \<Rightarrow> raw_event list \<Rightarrow> timed_event list
     \<Rightarrow> py_exception + timed_event list" where
  "filter_loop conv [] filtered_events = Inr filtered_events"
| "filter_loop conv (entry # entries) filtered_events =
     (if truthy (raw_start entry) \<and> truthy (raw_end entry)
      then (case conv (replace_Z (get (raw_start entry) [])) of
              Inl e \<Rightarrow> Inl e
            | Inr start_dt \<Rightarrow>
                (case conv (replace_Z (get (raw_end entry) [])) of
                   Inl e \<Rightarrow> Inl e
                 | Inr end_dt \<Rightarrow>
                     filter_loop conv entries
                       (filtered_events @
                        [\<lparr>view_summary = get (raw_summary entry) ''Untitled Event'',
                          view_start_time = strftime_I_M_p start_dt,
                          view_end_time = strftime_I_M_p end_dt\<rparr>])))
      else filter_loop conv entries filtered_events)"

definition failed_list :: "environment \<Rightarrow> py_exception \<Rightarrow> effect list \<Rightarrow> reply \<times> effect list" where
  "failed_list env e trace =
     (let error_result = ''Error retrieving calendar events: '' @ str_e env e
      in (Text error_result, trace @ [Result_callback (Text error_result)]))"

text \<open>
  The whole call. Lines 153 and 154 convert the two ends of the window to UTC before the
  credentials are asked for; the request carries them as \<open>timeMin\<close> and \<open>timeMax\<close>.
\<close>

definition get_calendar_events :: "environment \<Rightarrow> arguments \<Rightarrow> reply \<times> effect list" where
  "get_calendar_events env args =
     (let day = get (date_description args) ''today'';
          trace = [Speak (''Let me check the advisor'' @ [CHR 0x27] @ ''s availability for '' @ day)]
      in case parse_relative_date (clock env) day of
           Inl e \<Rightarrow> failed_list env e trace
         | Inr (day_start, day_end) \<Rightarrow>
             (case to_utc_iso env day_start of
                Inl e \<Rightarrow> failed_list env e trace
              | Inr time_min \<Rightarrow>
                  (case to_utc_iso env day_end of
                     Inl e \<Rightarrow> failed_list env e trace
                   | Inr time_max \<Rightarrow>
                       (case credentials_error env of
                          Some e \<Rightarrow> failed_list env e (trace @ [Get_google_credentials])
                        | None \<Rightarrow>
                            (case build_calendar_error env of
                               Some e \<Rightarrow>
                                 failed_list env e
                                   (trace @ [Get_google_credentials, Build ''calendar''])
                             | None \<Rightarrow>
                                 (let called = trace @ [Get_google_credentials, Build ''calendar'',
                                                        Events_list time_min time_max]
                                  in case list_result env of
                                       Inl e \<Rightarrow> failed_list env e called
                                     | Inr entries \<Rightarrow>
                                         (case filter_loop (fromisoformat_local env) entries [] of
                                            Inl e \<Rightarrow> failed_list env e called
                                          | Inr filtered_events \<Rightarrow>
                                              (Json_events filtered_events,
                                               called @
                                               [Result_callback (Json_events filtered_events)]))))))))"

text \<open>
  Vocabulary of the properties of the booking. A start time is malformed when it does not
  split into exactly two pieces or a piece is no integer. \<open>within_calendar now duration\<close>
  holds for the clock readings from which the day of the event and its end, \<open>duration\<close>
  minutes later, stay inside the calendar. \<open>external_call\<close> singles out the calls that reach
  the calendar or the mail service.
\<close>

definition malformed_time :: "string \<Rightarrow> bool" where
  "malformed_time s \<longleftrightarrow>
     length (split_colon s) \<noteq> 2 \<or> (\<exists>piece \<in> set (split_colon s). py_int piece = None)"

definition within_calendar :: "datetime \<Rightarrow> int \<Rightarrow> bool" where
  "within_calendar now duration \<longleftrightarrow>
     \<bar>duration\<bar> div 1440 + 4 \<le> ordinal now \<and>
     ordinal now + \<bar>duration\<bar> div 1440 + 10 \<le> MAXORDINAL"

fun external_call :: "effect \<Rightarrow> bool" where
  "external_call (Events_insert body) = True"
| "external_call (Messages_send m) = True"
| "external_call (Events_list a b) = True"
| "external_call e = False"

text \<open>
  The surroundings and the arguments of the examples: the clock at \<open>wednesday_morning\<close>, a
  local offset of five and a half hours (so the UTC time is 330 minutes earlier), every
  backend call returning, and the booking of the specification's example with a confirmation
  address.
\<close>

definition sample_env :: environment where
  "sample_env =
     \<lparr>clock = wednesday_morning, utcoffset = 19800,
      interpreter_text = (\<lambda>e. ''date value out of range''),
      credentials_error = None, build_calendar_error = None, insert_error = None,
      build_gmail_error = None, send_error = None,
      list_result = Inr [], fromisoformat_local = (\<lambda>s. Inl ValueError),
      to_utc_iso =
        (\<lambda>d. case add_minutes d (- 330) of
               Inl e \<Rightarrow> Inl e
             | Inr u \<Rightarrow> Inr (strftime_rfc3339 u @ ''Z''))\<rparr>"

definition sample_args :: arguments where
  "sample_args =
     \<lparr>title = Some ''Appointment with Jane'', date_description = Some ''friday'',
      start_time = Some ''14:00'', duration_minutes = Some 30, description = None,
      customer_email = Some ''x@example.com''\<rparr>"

text \<open>
  Vocabulary of the properties of the listing: whether the conversion of a \<open>dateTime\<close>
  value to local time returns, the entry that the listing reports for a timed raw entry, and
  the conversion and the raw entries of the example (two timed entries around an all-day one,
  which has no \<open>dateTime\<close>).
\<close>

definition converts :: "(string \<Rightarrow> py_exception + datetime) \<Rightarrow> string option \<Rightarrow> bool" where
  "converts conv v \<longleftrightarrow> (case conv (replace_Z (get v [])) of Inr d \<Rightarrow> True | Inl e \<Rightarrow> False)"

definition local_time :: "(string \<Rightarrow> py_exception + datetime) \<Rightarrow> string option \<Rightarrow> string" where
  "local_time conv v = (case conv (replace_Z (get v [])) of Inr d \<Rightarrow> strftime_I_M_p d | Inl e \<Rightarrow> [])"

definition timed_view :: "(string \<Rightarrow> py_exception + datetime) \<Rightarrow> raw_event \<Rightarrow> timed_event" where
  "timed_view conv entry =
     \<lparr>view_summary = get (raw_summary entry) ''Untitled Event'',
      view_start_time = local_time conv (raw_start entry),
      view_end_time = local_time conv (raw_end entry)\<rparr>"

definition sample_conversion :: "string \<Rightarrow> py_exception + datetime" where
  "sample_conversion s =
     (case map_of
        [(''2024-01-12T08:30:00+00:00'',
          \<lparr>ordinal = 738897, hour = 14, minute = 0, second = 0, microsecond = 0\<rparr>),
         (''2024-01-12T09:00:00+00:00'',
          \<lparr>ordinal = 738897, hour = 14, minute = 30, second = 0, microsecond = 0\<rparr>),
         (''2024-01-12T11:15:00+05:30'',
          \<lparr>ordinal = 738897, hour = 11, minute = 15, second = 0, microsecond = 0\<rparr>),
         (''2024-01-12T12:00:00+05:30'',
          \<lparr>ordinal = 738897, hour = 12, minute = 0, second = 0, microsecond = 0\<rparr>)] s of
        Some d \<Rightarrow> Inr d
      | None \<Rightarrow> Inl ValueError)"

definition sample_entries :: "raw_event list" where
  "sample_entries =
     [\<lparr>raw_summary = Some ''Appointment with Jane'', raw_start = Some ''2024-01-12T08:30:00Z'',
        raw_end = Some ''2024-01-12T09:00:00Z''\<rparr>,
      \<lparr>raw_summary = Some ''Office closed'', raw_start = None, raw_end = None\<rparr>,
      \<lparr>raw_summary = None, raw_start = Some ''2024-01-12T11:15:00+05:30'',
        raw_end = Some ''2024-01-12T12:00:00+05:30''\<rparr>]"

text \<open>The words whose presence in the result tells that the confirmation mail went out.\<close>

definition confirmation_phrase :: string where
  "confirmation_phrase = ''Confirmation email sent''"

text \<open>
  Whether the confirmation mail goes out: an address was given, and the mail service and the
  sending return.
\<close>

definition mail_goes_out :: "environment \<Rightarrow> arguments \<Rightarrow> bool" where
  "mail_goes_out env args \<longleftrightarrow>
     get (customer_email args) [] \<noteq> [] \<and> build_gmail_error env = None \<and> send_error env = None"

section \<open>Properties of parse_relative_date\<close>

lemma strip_lower_weekday_name:
  "w \<in> set weekday_names \<Longrightarrow> strip (lower w) = w"
  by (auto simp: weekday_names_def strip_def lower_def lower_char_def capital_letters_def small_letters_def isspace_def)

lemma strip_lower_next_weekday_name:
  "w \<in> set weekday_names \<Longrightarrow> strip (lower (''next '' @ w)) = ''next '' @ w"
  by (auto simp: weekday_names_def strip_def lower_def lower_char_def capital_letters_def small_letters_def isspace_def)

lemma target_date_weekday_name:
  "i < 7 \<Longrightarrow> target_date now (weekday_names ! i) = next_weekday now (int i)"
proof -
  assume "i < 7"
  then consider "i = 0" | "i = 1" | "i = 2" | "i = 3" | "i = 4" | "i = 5" | "i = 6"
    by linarith
  then show ?thesis
    by cases (simp_all add: target_date_def weekday_names_def)
qed

lemma weekday_name_disj:
  "w \<in> set weekday_names \<Longrightarrow>
     w = ''monday'' \<or> w = ''tuesday'' \<or> w = ''wednesday'' \<or> w = ''thursday'' \<or>
     w = ''friday'' \<or> w = ''saturday'' \<or> w = ''sunday''"
  by (simp add: weekday_names_def)

lemma target_date_next_weekday_name:
  assumes "w \<in> set weekday_names"
  shows "target_date now (''next '' @ w) = target_date now w"
  using weekday_name_disj [OF assms] by (elim disjE) (simp_all add: target_date_def)

lemma next_weekday_offset:
  assumes "0 \<le> w" "w \<le> 6"
  shows "\<exists>d. 1 \<le> d \<and> d \<le> 7 \<and> (weekday now + d) mod 7 = w \<and>
        (\<forall>d'. 0 < d' \<and> d' < d \<longrightarrow> (weekday now + d') mod 7 \<noteq> w) \<and>
        (weekday now = w \<longrightarrow> d = 7) \<and> next_weekday now w = add_days now d"
proof -
  have r: "0 \<le> weekday now" "weekday now < 7" by (simp_all add: weekday_def)
  define d where "d = (if w - weekday now \<le> 0 then w - weekday now + 7 else w - weekday now)"
  have "next_weekday now w = add_days now d" by (simp add: next_weekday_def d_def Let_def)
  moreover have "1 \<le> d" "d \<le> 7" using r assms by (auto simp: d_def)
  moreover have "(weekday now + d) mod 7 = w" using r assms by (auto simp: d_def)
  moreover have "\<forall>d'. 0 < d' \<and> d' < d \<longrightarrow> (weekday now + d') mod 7 \<noteq> w"
    using r assms unfolding d_def by (auto split: if_splits) presburger+
  moreover have "weekday now = w \<longrightarrow> d = 7" by (simp add: d_def)
  ultimately show ?thesis by blast
qed

lemma window_of_target:
  assumes "target_date now (strip (lower tok)) = add_days now d" "- 1 \<le> d" "d \<le> 7" "clock_in_range now"
  shows "parse_relative_date now tok = Inr (day_window (ordinal now + d))"
  using assms
  by (simp add: parse_relative_date_def add_days_def replace_def fits_c_int_def Let_def
      clock_in_range_def MAXORDINAL_def day_window_def midnight_def)

text \<open>
  Claim C1. For a weekday token \<open>W\<close> (any spelling that lowercases and trims to the
  weekday name number \<open>i\<close>), \<open>parse_relative_date\<close> returns the day window that starts
  \<open>d\<close> days after the day of \<open>now\<close>, where \<open>d\<close> is the smallest strictly positive
  offset with \<open>(now.weekday() + d) mod 7 = i\<close>; when \<open>now\<close> already falls on \<open>W\<close>, that is
  exactly 7 days ahead and never the current day. The clock reading is one from which the
  datetime arithmetic stays inside the calendar.
\<close>

theorem weekday_token_next_occurrence:
  assumes "i < 7" and "strip (lower tok) = weekday_names ! i" and "clock_in_range now"
  shows "\<exists>d. 1 \<le> d \<and> d \<le> 7 \<and> (weekday now + d) mod 7 = int i \<and>
           (\<forall>d'. 0 < d' \<and> d' < d \<longrightarrow> (weekday now + d') mod 7 \<noteq> int i) \<and>
           (weekday now = int i \<longrightarrow> d = 7) \<and>
           parse_relative_date now tok = Inr (day_window (ordinal now + d))"
proof -
  from assms(1) have "0 \<le> int i" "int i \<le> 6" by simp_all
  from next_weekday_offset [OF this, of now] obtain d where d:
    "1 \<le> d" "d \<le> 7" "(weekday now + d) mod 7 = int i"
    "\<forall>d'. 0 < d' \<and> d' < d \<longrightarrow> (weekday now + d') mod 7 \<noteq> int i"
    "weekday now = int i \<longrightarrow> d = 7" "next_weekday now (int i) = add_days now d"
    by blast
  have "target_date now (strip (lower tok)) = add_days now d"
    using assms(1,2) d(6) by (simp add: target_date_weekday_name)
  then have "parse_relative_date now tok = Inr (day_window (ordinal now + d))"
    using d(1,2) assms(3) by (intro window_of_target) simp_all
  with d show ?thesis by blast
qed

theorem weekday_token_next_occurrence_witness:
  "2 < (7::nat) \<and> strip (lower ''Wednesday '') = weekday_names ! 2 \<and>
   clock_in_range wednesday_morning \<and> weekday wednesday_morning = 2 \<and>
   parse_relative_date wednesday_morning ''Wednesday '' = Inr (day_window (738895 + 7))"
proof -
  have a: "(2::nat) < 7" by simp
  have b: "strip (lower ''Wednesday '') = weekday_names ! 2"
    by (simp add: strip_def lower_def lower_char_def capital_letters_def small_letters_def isspace_def weekday_names_def)
  have c: "clock_in_range wednesday_morning"
    by (simp add: clock_in_range_def wednesday_morning_def MAXORDINAL_def)
  have e: "weekday wednesday_morning = 2"
    by (simp add: weekday_def wednesday_morning_def)
  from weekday_token_next_occurrence [OF a b c] e
  have "parse_relative_date wednesday_morning ''Wednesday '' =
          Inr (day_window (ordinal wednesday_morning + 7))"
    by auto
  with a b c e show ?thesis by (simp add: wednesday_morning_def)
qed

text \<open>
  Claim C2. For every weekday name \<open>W\<close> and every \<open>now\<close>, the token \<open>next W\<close> and the
  bare token \<open>W\<close> give the same result of \<open>parse_relative_date\<close>: the same window, or
  the same exception where the arithmetic leaves the calendar.
\<close>

theorem next_prefix_same_window:
  "w \<in> set weekday_names \<Longrightarrow>
     parse_relative_date now (''next '' @ w) = parse_relative_date now w"
proof -
  assume w: "w \<in> set weekday_names"
  have "strip (lower (''next '' @ w)) = ''next '' @ w"
    using w by (rule strip_lower_next_weekday_name)
  moreover have "strip (lower w) = w"
    using w by (rule strip_lower_weekday_name)
  moreover have "target_date now (''next '' @ w) = target_date now w"
    using w by (rule target_date_next_weekday_name)
  ultimately show ?thesis
    unfolding parse_relative_date_def Let_def by (simp only:)
qed

theorem next_prefix_same_window_witness:
  "''friday'' \<in> set weekday_names \<and>
   parse_relative_date wednesday_morning (''next '' @ ''friday'') = Inr (day_window 738897) \<and>
   parse_relative_date wednesday_morning ''friday'' = Inr (day_window 738897)"
proof -
  have a: "''friday'' \<in> set weekday_names" by (simp add: weekday_names_def)
  have b: "parse_relative_date wednesday_morning ''friday'' = Inr (day_window 738897)"
    by (simp add: parse_relative_date_def strip_def lower_def lower_char_def capital_letters_def small_letters_def isspace_def
        target_date_def next_weekday_def weekday_def add_days_def replace_def fits_c_int_def
        wednesday_morning_def MAXORDINAL_def day_window_def midnight_def)
  from next_prefix_same_window [OF a, of wednesday_morning] a b show ?thesis by simp
qed


lemma parse_relative_date_Inr:
  assumes "parse_relative_date now tok = Inr (a, b)"
  shows "a = midnight (ordinal a) \<and> b = midnight (ordinal a + 1)"
  using assms
  by (auto simp: parse_relative_date_def replace_def add_days_def Let_def midnight_def
      intro!: datetime.equality split: sum.splits if_splits)

lemma target_date_in_range:
  assumes "clock_in_range now"
  shows "\<exists>d. - 1 \<le> d \<and> d \<le> 7 \<and> target_date now tok = add_days now d"
proof -
  define P where "P r \<longleftrightarrow> (\<exists>d. - 1 \<le> d \<and> d \<le> 7 \<and> r = add_days now d)" for r
  have pd: "P (add_days now d)" if "- 1 \<le> d" "d \<le> 7" for d
    using that unfolding P_def by blast
  have "Inr now = add_days now 0"
    using assms by (simp add: add_days_def clock_in_range_def MAXORDINAL_def)
  then have p0: "P (Inr now)"
    unfolding P_def by (intro exI [of _ 0]) simp
  have pw: "P (next_weekday now k)" if "0 \<le> k" "k \<le> 6" for k
  proof -
    from next_weekday_offset [OF that, of now] obtain d where
      "1 \<le> d" "d \<le> 7" "next_weekday now k = add_days now d" by blast
    then show ?thesis unfolding P_def by (intro exI [of _ d]) simp
  qed
  have "P (target_date now tok)"
    unfolding target_date_def by (simp only: if_split p0 pd pw) simp
  then show ?thesis unfolding P_def .
qed


lemma window_parts:
  "dt_less (midnight n) (midnight (n + 1))"
  "dt_sub (midnight (n + 1)) (midnight n) = \<lparr>days = 1, seconds = 0, microseconds = 0\<rparr>"
  by (simp_all add: dt_less_def dt_sub_def normalised_def seconds_of_day_def midnight_def)

text \<open>
  Claim C3. Whatever the input string and the clock reading, a pair \<open>(start, end)\<close> returned
  by \<open>parse_relative_date\<close> satisfies \<open>start < end\<close> and \<open>end - start = timedelta(days=1)\<close>,
  and \<open>start\<close> is 00:00:00.000000 of the resolved day. A pair is returned for every clock
  reading from which the datetime arithmetic stays inside the calendar.
\<close>

theorem day_window_invariant:
  "(parse_relative_date now tok = Inr (a, b) \<longrightarrow>
      dt_less a b \<and> dt_sub b a = \<lparr>days = 1, seconds = 0, microseconds = 0\<rparr> \<and>
      hour a = 0 \<and> minute a = 0 \<and> second a = 0 \<and> microsecond a = 0 \<and>
      (\<exists>t. target_date now (strip (lower tok)) = Inr t \<and> ordinal a = ordinal t)) \<and>
   (clock_in_range now \<longrightarrow> (\<exists>a b. parse_relative_date now tok = Inr (a, b)))"
proof (intro conjI impI)
  assume r: "parse_relative_date now tok = Inr (a, b)"
  from parse_relative_date_Inr [OF r]
  have ab: "a = midnight (ordinal a)" "b = midnight (ordinal a + 1)" by simp_all
  show "dt_less a b"
    using window_parts(1) [of "ordinal a"] ab by simp
  show "dt_sub b a = \<lparr>days = 1, seconds = 0, microseconds = 0\<rparr>"
    using window_parts(2) [of "ordinal a"] ab by simp
  have "hour (midnight (ordinal a)) = 0" "minute (midnight (ordinal a)) = 0"
    "second (midnight (ordinal a)) = 0" "microsecond (midnight (ordinal a)) = 0"
    by (simp_all add: midnight_def)
  with ab(1) show "hour a = 0" "minute a = 0" "second a = 0" "microsecond a = 0"
    by simp_all
  show "\<exists>t. target_date now (strip (lower tok)) = Inr t \<and> ordinal a = ordinal t"
    using r
    by (auto simp: parse_relative_date_def replace_def Let_def split: sum.splits if_splits)
next
  assume c: "clock_in_range now"
  from target_date_in_range [OF c, of "strip (lower tok)"] obtain d where
    "- 1 \<le> d" "d \<le> 7" "target_date now (strip (lower tok)) = add_days now d" by blast
  then have "parse_relative_date now tok = Inr (day_window (ordinal now + d))"
    using c by (intro window_of_target) simp_all
  then show "\<exists>a b. parse_relative_date now tok = Inr (a, b)"
    by (simp add: day_window_def)
qed

theorem day_window_invariant_witness:
  "parse_relative_date wednesday_morning ''Tomorrow'' = Inr (midnight 738896, midnight 738897) \<and>
   clock_in_range wednesday_morning \<and>
   dt_less (midnight 738896) (midnight 738897) \<and>
   dt_sub (midnight 738897) (midnight 738896) = \<lparr>days = 1, seconds = 0, microseconds = 0\<rparr> \<and>
   hour (midnight 738896) = 0"
proof -
  have r: "parse_relative_date wednesday_morning ''Tomorrow'' = Inr (midnight 738896, midnight 738897)"
    by (simp add: parse_relative_date_def strip_def lower_def lower_char_def capital_letters_def small_letters_def isspace_def
        target_date_def add_days_def replace_def fits_c_int_def
        wednesday_morning_def MAXORDINAL_def midnight_def)
  have c: "clock_in_range wednesday_morning"
    by (simp add: clock_in_range_def wednesday_morning_def MAXORDINAL_def)
  from day_window_invariant [of wednesday_morning "''Tomorrow''" "midnight 738896" "midnight 738897"] r c
  show ?thesis by simp
qed

lemma target_date_unrecognized:
  assumes "x \<notin> set recognized_tokens"
  shows "target_date now x = Inr now"
  using assms
  by (simp add: recognized_tokens_def spec_recognized_tokens_def weekday_names_def target_date_def)

lemma target_date_today: "target_date now ''today'' = Inr now"
  by (simp add: target_date_def)

lemma strip_lower_today: "strip (lower ''today'') = ''today''"
  by (simp add: strip_def lower_def lower_char_def capital_letters_def small_letters_def isspace_def)

text \<open>
  Claim C6, as stated over the tokens the specification lists: \<open>nextweek\<close> is not among
  them, and the source resolves it to the day one week ahead, not to today.
\<close>

theorem unrecognized_token_counterexample:
  "strip (lower ''nextweek'') \<notin> set spec_recognized_tokens \<and>
   parse_relative_date wednesday_morning ''nextweek'' \<noteq>
   parse_relative_date wednesday_morning ''today''"
  by (simp add: parse_relative_date_def strip_def lower_def lower_char_def capital_letters_def small_letters_def isspace_def
      target_date_def add_days_def replace_def fits_c_int_def spec_recognized_tokens_def
      weekday_names_def wednesday_morning_def MAXORDINAL_def)

text \<open>
  Claim C6, amended. For every token that, lowercased and trimmed, is none of the forms the
  source tests for (those of the specification and \<open>nextweek\<close>), \<open>parse_relative_date\<close>
  returns what it returns for \<open>today\<close>; for a clock reading inside the calendar that is the
  window of the current day, so nothing is raised and nothing is rejected.
\<close>

theorem unrecognized_token_is_today:
  assumes "strip (lower tok) \<notin> set recognized_tokens"
  shows "parse_relative_date now tok = parse_relative_date now ''today'' \<and>
         (clock_in_range now \<longrightarrow>
            parse_relative_date now tok = Inr (day_window (ordinal now)))"
proof -
  have t: "target_date now (strip (lower tok)) = Inr now"
    using assms by (rule target_date_unrecognized)
  have "parse_relative_date now tok = parse_relative_date now ''today''"
    unfolding parse_relative_date_def Let_def strip_lower_today t target_date_today ..
  moreover have "parse_relative_date now tok = Inr (day_window (ordinal now))"
    if c: "clock_in_range now"
  proof -
    have "Inr now = add_days now 0"
      using c by (simp add: add_days_def clock_in_range_def MAXORDINAL_def)
    with t have "target_date now (strip (lower tok)) = add_days now 0" by simp
    from window_of_target [OF this _ _ c] show ?thesis by simp
  qed
  ultimately show ?thesis by blast
qed

theorem unrecognized_token_is_today_witness:
  "strip (lower ''blorp'') \<notin> set recognized_tokens \<and> clock_in_range wednesday_morning \<and>
   parse_relative_date wednesday_morning ''blorp'' = parse_relative_date wednesday_morning ''today'' \<and>
   parse_relative_date wednesday_morning ''blorp'' = Inr (day_window 738895)"
proof -
  have a: "strip (lower ''blorp'') \<notin> set recognized_tokens"
    by (simp add: strip_def lower_def lower_char_def capital_letters_def small_letters_def isspace_def recognized_tokens_def
        spec_recognized_tokens_def weekday_names_def)
  have c: "clock_in_range wednesday_morning"
    by (simp add: clock_in_range_def wednesday_morning_def MAXORDINAL_def)
  have o: "ordinal wednesday_morning = 738895" by (simp add: wednesday_morning_def)
  from unrecognized_token_is_today [OF a, of wednesday_morning] c
  have "parse_relative_date wednesday_morning ''blorp'' =
          parse_relative_date wednesday_morning ''today''"
    and "parse_relative_date wednesday_morning ''blorp'' =
          Inr (day_window (ordinal wednesday_morning))"
    by blast+
  with a c show ?thesis unfolding o by blast
qed

section \<open>Properties of create_calendar_event\<close>

lemma parse_relative_date_in_range:
  assumes "clock_in_range now"
  shows "\<exists>d. - 1 \<le> d \<and> d \<le> 7 \<and> parse_relative_date now tok = Inr (day_window (ordinal now + d))"
proof -
  from target_date_in_range [OF assms, of "strip (lower tok)"] obtain d where
    d: "- 1 \<le> d" "d \<le> 7" "target_date now (strip (lower tok)) = add_days now d" by blast
  from window_of_target [OF d(3) d(1) d(2) assms] d(1,2) show ?thesis by blast
qed

lemma malformed_time_pieces:
  "malformed_time s \<longleftrightarrow> (\<forall>h m. map py_int (split_colon s) \<noteq> [Some h, Some m])"
proof -
  have "(length xs \<noteq> 2 \<or> (\<exists>p \<in> set xs. py_int p = None)) \<longleftrightarrow>
        (\<forall>h m. map py_int xs \<noteq> [Some h, Some m])" for xs
  proof (cases xs)
    case Nil
    then show ?thesis by simp
  next
    case (Cons a ys)
    show ?thesis
    proof (cases ys)
      case Nil
      with Cons show ?thesis by simp
    next
      case (Cons b zs)
      with \<open>xs = a # ys\<close> show ?thesis by (cases zs) auto
    qed
  qed
  then show ?thesis unfolding malformed_time_def .
qed

lemma parse_start_time_malformed:
  assumes "malformed_time s"
  shows "parse_start_time day_start s duration = Inl ValueError"
proof -
  from assms have n: "\<And>h m. map py_int (split_colon s) \<noteq> [Some h, Some m]"
    by (simp add: malformed_time_pieces)
  show ?thesis
    unfolding parse_start_time_def using n
    by (auto split: list.splits option.splits)
qed

lemma parse_start_time_out_of_range:
  assumes "map py_int (split_colon s) = [Some h, Some m]"
    and "fits_c_int h" "fits_c_int m"
    and "\<not> (0 \<le> h \<and> h \<le> 23 \<and> 0 \<le> m \<and> m \<le> 59)"
  shows "parse_start_time (midnight n) s duration = Inl ValueError"
  using assms
  by (auto simp: parse_start_time_def replace_def midnight_def fits_c_int_def)

lemma create_calendar_event_ValueError:
  assumes "parse_relative_date (clock env) (get (date_description args) ''today'') = Inr (day_start, day_end)"
    and "parse_start_time day_start (get (start_time args) ''09:00'') (get (duration_minutes args) 60) = Inl ValueError"
  shows "create_calendar_event env args =
          (invalid_time_format (get (start_time args) ''09:00''),
           [Speak (''Booking your appointment for '' @ get (date_description args) ''today''),
            Result_callback (Text (invalid_time_format (get (start_time args) ''09:00'')))])"
  using assms by (simp add: create_calendar_event_def Let_def)


lemma failed_create_no_external_call:
  assumes "\<forall>x \<in> set trace. \<not> external_call x"
  shows "\<forall>x \<in> set (snd (failed_create env e trace)). \<not> external_call x"
  using assms by (simp add: failed_create_def Let_def)

lemma create_calendar_event_no_start:
  assumes "\<And>day_start day_end.
      parse_relative_date (clock env) (get (date_description args) ''today'') = Inr (day_start, day_end) \<Longrightarrow>
      \<exists>e. parse_start_time day_start (get (start_time args) ''09:00'')
             (get (duration_minutes args) 60) = Inl e"
  shows "\<forall>x \<in> set (snd (create_calendar_event env args)). \<not> external_call x"
proof (cases "parse_relative_date (clock env) (get (date_description args) ''today'')")
  case (Inl e)
  then show ?thesis
    by (simp add: create_calendar_event_def Let_def failed_create_def)
next
  case (Inr w)
  obtain day_start day_end where w: "w = (day_start, day_end)" by (cases w)
  from assms [OF Inr [unfolded w]] obtain e where
    "parse_start_time day_start (get (start_time args) ''09:00'')
       (get (duration_minutes args) 60) = Inl e" ..
  with Inr w show ?thesis
    by (simp add: create_calendar_event_def Let_def failed_create_def)
qed

text \<open>
  Claim C4. When \<open>start_time\<close> is malformed (it does not split at \<open>:\<close> into exactly two
  pieces, or a piece is not an integer, as in \<open>9am\<close>), \<open>create_calendar_event\<close> makes no
  call to the calendar or the mail service, and, the clock being inside the calendar, it
  returns the message \<open>Invalid time format: <input>. Please use HH:MM format (e.g., '14:00')\<close>
  after the spoken acknowledgement and nothing else.
\<close>

theorem malformed_start_time_rejected:
  assumes "malformed_time (get (start_time args) ''09:00'')"
  shows "(\<forall>x \<in> set (snd (create_calendar_event env args)). \<not> external_call x) \<and>
         (clock_in_range (clock env) \<longrightarrow>
            create_calendar_event env args =
              (invalid_time_format (get (start_time args) ''09:00''),
               [Speak (''Booking your appointment for '' @ get (date_description args) ''today''),
                Result_callback (Text (invalid_time_format (get (start_time args) ''09:00'')))]))"
proof (intro conjI impI)
  show "\<forall>x \<in> set (snd (create_calendar_event env args)). \<not> external_call x"
    by (rule create_calendar_event_no_start) (simp add: parse_start_time_malformed [OF assms])
next
  assume "clock_in_range (clock env)"
  from parse_relative_date_in_range [OF this, of "get (date_description args) ''today''"]
  obtain d where
    "parse_relative_date (clock env) (get (date_description args) ''today'') =
       Inr (midnight (ordinal (clock env) + d), midnight (ordinal (clock env) + d + 1))"
    by (auto simp: day_window_def)
  then show "create_calendar_event env args =
      (invalid_time_format (get (start_time args) ''09:00''),
       [Speak (''Booking your appointment for '' @ get (date_description args) ''today''),
        Result_callback (Text (invalid_time_format (get (start_time args) ''09:00'')))])"
    by (rule create_calendar_event_ValueError) (rule parse_start_time_malformed [OF assms])
qed

lemma sample_clock_in_range: "clock_in_range (clock sample_env)"
  by (simp add: sample_env_def clock_in_range_def wednesday_morning_def MAXORDINAL_def)

theorem malformed_start_time_rejected_witness:
  "malformed_time ''9am'' \<and> clock_in_range (clock sample_env) \<and>
   create_calendar_event sample_env (sample_args\<lparr>start_time := Some ''9am''\<rparr>) =
     (''Invalid time format: 9am. Please use HH:MM format (e.g., '' @ [CHR 0x27] @ ''14:00'' @
        [CHR 0x27] @ '')'',
      [Speak ''Booking your appointment for friday'',
       Result_callback
         (Text (''Invalid time format: 9am. Please use HH:MM format (e.g., '' @ [CHR 0x27] @
            ''14:00'' @ [CHR 0x27] @ '')''))])"
proof -
  have m: "malformed_time ''9am''"
    by (simp add: malformed_time_def)
  then have "malformed_time (get (start_time (sample_args\<lparr>start_time := Some ''9am''\<rparr>)) ''09:00'')"
    by (simp add: get_def)
  from malformed_start_time_rejected [OF this, of sample_env] sample_clock_in_range
  have "create_calendar_event sample_env (sample_args\<lparr>start_time := Some ''9am''\<rparr>) =
      (invalid_time_format ''9am'',
       [Speak (''Booking your appointment for '' @ ''friday''),
        Result_callback (Text (invalid_time_format ''9am''))])"
    by (simp add: get_def sample_args_def)
  with m sample_clock_in_range show ?thesis
    by (simp add: invalid_time_format_def)
qed

lemma parse_start_time_out_of_range_Inl:
  assumes "map py_int (split_colon s) = [Some h, Some m]"
    and "\<not> (0 \<le> h \<and> h \<le> 23 \<and> 0 \<le> m \<and> m \<le> 59)"
  shows "\<exists>e. parse_start_time day_start s duration = Inl e"
  using assms by (auto simp: parse_start_time_def replace_def)

text \<open>
  Claim C10, as stated for every numerically out-of-range time: the hour \<open>2147483648\<close> is
  an integer outside \<open>0..23\<close>, but it does not fit a C \<open>int\<close>, so the substitution raises
  \<open>OverflowError\<close>, which the handler of \<open>ValueError\<close> does not catch; the call returns the
  text of the outer handler instead of the message about the time format.
\<close>

theorem out_of_range_counterexample:
  "map py_int (split_colon ''2147483648:00'') = [Some 2147483648, Some 0] \<and>
   fst (create_calendar_event sample_env (sample_args\<lparr>start_time := Some ''2147483648:00''\<rparr>)) =
     ''Error creating calendar event: '' @ interpreter_text sample_env OverflowError \<and>
   fst (create_calendar_event sample_env (sample_args\<lparr>start_time := Some ''2147483648:00''\<rparr>)) \<noteq>
     invalid_time_format ''2147483648:00''"
proof -
  have p: "map py_int (split_colon ''2147483648:00'') = [Some 2147483648, Some 0]"
    by (simp add: py_int_def int_literal_def int_space_def digit_value_def)
  have d: "parse_relative_date wednesday_morning ''friday'' = Inr (midnight 738897, midnight 738898)"
    by (simp add: parse_relative_date_def strip_def lower_def lower_char_def capital_letters_def small_letters_def isspace_def
        target_date_def next_weekday_def weekday_def add_days_def replace_def fits_c_int_def
        wednesday_morning_def MAXORDINAL_def midnight_def)
  have s: "parse_start_time (midnight 738897) ''2147483648:00'' 30 = Inl OverflowError"
    unfolding parse_start_time_def p by (simp add: replace_def fits_c_int_def midnight_def)
  have "create_calendar_event sample_env (sample_args\<lparr>start_time := Some ''2147483648:00''\<rparr>) =
      failed_create sample_env OverflowError [Speak ''Booking your appointment for friday'']"
    by (simp add: create_calendar_event_def sample_env_def sample_args_def get_def d s)
  then show ?thesis using p
    by (simp add: failed_create_def str_e_def sample_env_def invalid_time_format_def Let_def)
qed

text \<open>
  Claim C10, amended. When \<open>start_time\<close> splits into two integers of which the hour is
  outside \<open>0..23\<close> or the minute outside \<open>0..59\<close> (as in \<open>25:00\<close> or \<open>12:75\<close>), no call to
  the calendar or the mail service is made; and when both integers fit a C \<open>int\<close>, the
  substitution raises the caught \<open>ValueError\<close> and the call returns the message
  \<open>Invalid time format: <input>. Please use HH:MM format (e.g., '14:00')\<close>, the clock being
  inside the calendar.
\<close>

theorem out_of_range_start_time_rejected:
  assumes "map py_int (split_colon (get (start_time args) ''09:00'')) = [Some h, Some m]"
    and "\<not> (0 \<le> h \<and> h \<le> 23 \<and> 0 \<le> m \<and> m \<le> 59)"
  shows "(\<forall>x \<in> set (snd (create_calendar_event env args)). \<not> external_call x) \<and>
         (fits_c_int h \<and> fits_c_int m \<and> clock_in_range (clock env) \<longrightarrow>
            create_calendar_event env args =
              (invalid_time_format (get (start_time args) ''09:00''),
               [Speak (''Booking your appointment for '' @ get (date_description args) ''today''),
                Result_callback (Text (invalid_time_format (get (start_time args) ''09:00'')))]))"
proof (intro conjI impI)
  show "\<forall>x \<in> set (snd (create_calendar_event env args)). \<not> external_call x"
    by (rule create_calendar_event_no_start) (rule parse_start_time_out_of_range_Inl [OF assms])
next
  assume a: "fits_c_int h \<and> fits_c_int m \<and> clock_in_range (clock env)"
  then have "clock_in_range (clock env)" by simp
  from parse_relative_date_in_range [OF this, of "get (date_description args) ''today''"]
  obtain d where
    "parse_relative_date (clock env) (get (date_description args) ''today'') =
       Inr (midnight (ordinal (clock env) + d), midnight (ordinal (clock env) + d + 1))"
    by (auto simp: day_window_def)
  moreover have "parse_start_time (midnight (ordinal (clock env) + d))
      (get (start_time args) ''09:00'') (get (duration_minutes args) 60) = Inl ValueError"
    using parse_start_time_out_of_range [OF assms(1) _ _ assms(2)] a by blast
  ultimately show "create_calendar_event env args =
      (invalid_time_format (get (start_time args) ''09:00''),
       [Speak (''Booking your appointment for '' @ get (date_description args) ''today''),
        Result_callback (Text (invalid_time_format (get (start_time args) ''09:00'')))])"
    by (rule create_calendar_event_ValueError)
qed

theorem out_of_range_start_time_rejected_witness:
  "map py_int (split_colon ''25:00'') = [Some 25, Some 0] \<and>
   \<not> (0 \<le> (25::int) \<and> (25::int) \<le> 23 \<and> 0 \<le> (0::int) \<and> (0::int) \<le> 59) \<and>
   fits_c_int 25 \<and> fits_c_int 0 \<and> clock_in_range (clock sample_env) \<and>
   create_calendar_event sample_env (sample_args\<lparr>start_time := Some ''25:00''\<rparr>) =
     (invalid_time_format ''25:00'',
      [Speak ''Booking your appointment for friday'',
       Result_callback (Text (invalid_time_format ''25:00''))])"
proof -
  have p: "map py_int (split_colon ''25:00'') = [Some 25, Some 0]"
    by (simp add: py_int_def int_literal_def int_space_def digit_value_def)
  then have p': "map py_int (split_colon (get (start_time (sample_args\<lparr>start_time := Some ''25:00''\<rparr>)) ''09:00'')) =
      [Some 25, Some 0]"
    by (simp add: get_def)
  have r: "\<not> (0 \<le> (25::int) \<and> (25::int) \<le> 23 \<and> 0 \<le> (0::int) \<and> (0::int) \<le> 59)" by simp
  have f: "fits_c_int 25" "fits_c_int 0" by (simp_all add: fits_c_int_def)
  from out_of_range_start_time_rejected [OF p' r, of sample_env] f sample_clock_in_range
  have "create_calendar_event sample_env (sample_args\<lparr>start_time := Some ''25:00''\<rparr>) =
      (invalid_time_format ''25:00'',
       [Speak (''Booking your appointment for '' @ ''friday''),
        Result_callback (Text (invalid_time_format ''25:00''))])"
    by (simp add: get_def sample_args_def)
  with p r f sample_clock_in_range show ?thesis by simp
qed

lemma minutes_as_days:
  fixes k :: int
  shows "(k * 60) div 86400 = k div 1440"
    and "- (\<bar>k\<bar> div 1440) - 1 \<le> k div 1440" and "k div 1440 \<le> \<bar>k\<bar> div 1440"
proof -
  have "(k * 60) div 86400 = (k * 60) div (60 * 1440)" by simp
  also have "\<dots> = ((k * 60) div 60) div 1440" by (rule zdiv_zmult2_eq) simp
  also have "\<dots> = k div 1440" by simp
  finally show "(k * 60) div 86400 = k div 1440" .
  show "k div 1440 \<le> \<bar>k\<bar> div 1440" by (rule zdiv_mono1) simp_all
  have e1: "k = 1440 * (k div 1440) + k mod 1440" by simp
  have e2: "\<bar>k\<bar> = 1440 * (\<bar>k\<bar> div 1440) + \<bar>k\<bar> mod 1440" by simp
  have r1: "0 \<le> k mod 1440" "k mod 1440 < 1440" by simp_all
  have r2: "0 \<le> \<bar>k\<bar> mod 1440" "\<bar>k\<bar> mod 1440 < 1440" by simp_all
  have "- \<bar>k\<bar> \<le> k" by simp
  with e1 e2 r1 r2 show "- (\<bar>k\<bar> div 1440) - 1 \<le> k div 1440" by linarith
qed

lemma add_minutes_in_calendar:
  assumes "0 \<le> h" "h \<le> 23" "0 \<le> m" "m \<le> 59"
    and "\<bar>k\<bar> div 1440 + 3 \<le> n" "n + \<bar>k\<bar> div 1440 + 2 \<le> MAXORDINAL"
  shows "\<exists>e. add_minutes \<lparr>ordinal = n, hour = h, minute = m, second = 0, microsecond = 0\<rparr> k = Inr e"
proof -
  define dd where "dd = (k * 60) div 86400"
  define t where "t = h * 3600 + m * 60 + 0 + (k * 60) mod 86400"
  have dd: "- (\<bar>k\<bar> div 1440) - 1 \<le> dd" "dd \<le> \<bar>k\<bar> div 1440"
    using minutes_as_days [of k] by (simp_all add: dd_def)
  have "0 \<le> (k * 60) mod 86400" "(k * 60) mod 86400 < 86400" by simp_all
  with assms(1-4) have t: "0 \<le> t" "t < 172800" by (simp_all add: t_def)
  have "t = 86400 * (t div 86400) + t mod 86400" "0 \<le> t mod 86400" "t mod 86400 < 86400"
    by simp_all
  with t have c: "0 \<le> t div 86400" "t div 86400 \<le> 1" by linarith+
  have m: "MAXORDINAL \<le> 999999999" by (simp add: MAXORDINAL_def)
  have a: "\<not> 999999999 < \<bar>dd\<bar>" using dd assms(5,6) m by linarith
  have b: "1 \<le> n + dd + t div 86400" "n + dd + t div 86400 \<le> MAXORDINAL"
    using dd c assms(5,6) by linarith+
  show ?thesis
    unfolding add_minutes_def Let_def
    using a b by (simp add: dd_def t_def)
qed

lemma parse_start_time_valid:
  assumes "map py_int (split_colon s) = [Some h, Some m]"
    and "0 \<le> h" "h \<le> 23" "0 \<le> m" "m \<le> 59"
    and "\<bar>k\<bar> div 1440 + 3 \<le> n" "n + \<bar>k\<bar> div 1440 + 2 \<le> MAXORDINAL"
  shows "\<exists>e. parse_start_time (midnight n) s k =
           Inr (\<lparr>ordinal = n, hour = h, minute = m, second = 0, microsecond = 0\<rparr>, e)"
proof -
  have "fits_c_int h" "fits_c_int m" "fits_c_int 0"
    using assms(2-5) by (simp_all add: fits_c_int_def)
  then have r: "replace (midnight n) h m (second (midnight n)) (microsecond (midnight n)) =
      Inr \<lparr>ordinal = n, hour = h, minute = m, second = 0, microsecond = 0\<rparr>"
    using assms(2-5) by (simp add: replace_def midnight_def)
  from add_minutes_in_calendar [OF assms(2-7)] obtain e where
    "add_minutes \<lparr>ordinal = n, hour = h, minute = m, second = 0, microsecond = 0\<rparr> k = Inr e" ..
  with r show ?thesis
    unfolding parse_start_time_def assms(1) by simp
qed

lemma submit_event_inserts:
  assumes "credentials_error env = None" "build_calendar_error env = None"
  shows "Events_insert
           (event_body summary details start_dt end_dt (local_tz_str (offset_hours (utcoffset env))))
         \<in> set (snd (submit_event env summary details address duration start_dt end_dt trace))"
  using assms
  by (simp add: submit_event_def Let_def failed_create_def split: option.splits prod.splits)

text \<open>
  Claim C8. \<open>create_calendar_event\<close> validates neither business hours nor weekdays: for
  every \<open>start_time\<close> that parses as an hour in \<open>0..23\<close> and a minute in \<open>0..59\<close>, whatever
  the hour, and for every \<open>date_description\<close>, whatever day it resolves to, the call goes
  on to submit the calendar entry at that time of the resolved day. The other conditions of
  reaching the insertion are assumed: the event stays inside the calendar, and the credentials
  and the calendar service are obtained.
\<close>

theorem no_business_hours_validation:
  assumes "map py_int (split_colon (get (start_time args) ''09:00'')) = [Some h, Some m]"
    and "0 \<le> h" "h \<le> 23" "0 \<le> m" "m \<le> 59"
    and "within_calendar (clock env) (get (duration_minutes args) 60)"
    and "credentials_error env = None" "build_calendar_error env = None"
  shows "\<exists>d event_end. 1 \<le> ordinal (clock env) + d \<and>
           parse_relative_date (clock env) (get (date_description args) ''today'') =
             Inr (day_window (ordinal (clock env) + d)) \<and>
           Events_insert
             (event_body (get (title args) ''Untitled Event'') (get (description args) [])
                \<lparr>ordinal = ordinal (clock env) + d, hour = h, minute = m, second = 0,
                  microsecond = 0\<rparr>
                event_end (local_tz_str (offset_hours (utcoffset env))))
           \<in> set (snd (create_calendar_event env args))"
proof -
  let ?k = "get (duration_minutes args) 60"
  from assms(6) have w: "\<bar>?k\<bar> div 1440 + 4 \<le> ordinal (clock env)"
    "ordinal (clock env) + \<bar>?k\<bar> div 1440 + 10 \<le> MAXORDINAL"
    by (simp_all add: within_calendar_def)
  have "0 \<le> \<bar>?k\<bar> div 1440" by simp
  with w have c: "clock_in_range (clock env)"
    unfolding clock_in_range_def by linarith
  from parse_relative_date_in_range [OF c, of "get (date_description args) ''today''"]
  obtain d where d: "- 1 \<le> d" "d \<le> 7"
    "parse_relative_date (clock env) (get (date_description args) ''today'') =
       Inr (day_window (ordinal (clock env) + d))"
    by blast
  let ?n = "ordinal (clock env) + d"
  have n: "\<bar>?k\<bar> div 1440 + 3 \<le> ?n" "?n + \<bar>?k\<bar> div 1440 + 2 \<le> MAXORDINAL"
    using w d(1,2) by linarith+
  from parse_start_time_valid [OF assms(1-5) n] obtain e where e:
    "parse_start_time (midnight ?n) (get (start_time args) ''09:00'') ?k =
       Inr (\<lparr>ordinal = ?n, hour = h, minute = m, second = 0, microsecond = 0\<rparr>, e)" ..
  have "create_calendar_event env args =
      submit_event env (get (title args) ''Untitled Event'') (get (description args) [])
        (get (customer_email args) []) ?k
        \<lparr>ordinal = ?n, hour = h, minute = m, second = 0, microsecond = 0\<rparr> e
        [Speak (''Booking your appointment for '' @ get (date_description args) ''today'')]"
    using d(3) e by (simp add: create_calendar_event_def Let_def day_window_def)
  with submit_event_inserts [OF assms(7,8)]
  have "Events_insert
      (event_body (get (title args) ''Untitled Event'') (get (description args) [])
         \<lparr>ordinal = ?n, hour = h, minute = m, second = 0, microsecond = 0\<rparr> e
         (local_tz_str (offset_hours (utcoffset env))))
      \<in> set (snd (create_calendar_event env args))"
    by simp
  moreover have "1 \<le> ?n" using n(1) \<open>0 \<le> \<bar>?k\<bar> div 1440\<close> by linarith
  ultimately show ?thesis using d(3) by blast
qed

lemma sample_friday:
  "parse_relative_date wednesday_morning ''friday'' = Inr (midnight 738897, midnight 738898)"
  by (simp add: parse_relative_date_def strip_def lower_def lower_char_def capital_letters_def small_letters_def isspace_def
      target_date_def next_weekday_def weekday_def add_days_def replace_def fits_c_int_def
      wednesday_morning_def MAXORDINAL_def midnight_def)

lemma sample_start_time:
  "parse_start_time (midnight 738897) ''14:00'' 30 =
     Inr (\<lparr>ordinal = 738897, hour = 14, minute = 0, second = 0, microsecond = 0\<rparr>,
          \<lparr>ordinal = 738897, hour = 14, minute = 30, second = 0, microsecond = 0\<rparr>)"
  by (simp add: parse_start_time_def py_int_def int_literal_def int_space_def digit_value_def
      replace_def fits_c_int_def midnight_def add_minutes_def MAXORDINAL_def)

lemma sample_ymd: "ord2ymd 738897 = (2024, 1, 12)"
  by (simp add: ord2ymd_def days_before_month_def days_in_month_def Let_def)

lemma sample_texts:
  "strftime_rfc3339 \<lparr>ordinal = 738897, hour = 14, minute = 0, second = 0, microsecond = 0\<rparr> =
     ''2024-01-12T14:00:00''"
  "strftime_rfc3339 \<lparr>ordinal = 738897, hour = 14, minute = 30, second = 0, microsecond = 0\<rparr> =
     ''2024-01-12T14:30:00''"
  "strftime_A_B_d \<lparr>ordinal = 738897, hour = 14, minute = 0, second = 0, microsecond = 0\<rparr> =
     ''Friday, January 12''"
  "strftime_I_M_p \<lparr>ordinal = 738897, hour = 14, minute = 0, second = 0, microsecond = 0\<rparr> =
     ''02:00 PM''"
  "strftime_I_M_p \<lparr>ordinal = 738897, hour = 14, minute = 30, second = 0, microsecond = 0\<rparr> =
     ''02:30 PM''"
  by (simp_all add: strftime_rfc3339_def strftime_A_B_d_def strftime_I_M_p_def sample_ymd
      str_int_def two_digits_def digit_char_def day_name_def month_name_def weekday_def)


theorem no_business_hours_validation_witness:
  "map py_int (split_colon ''23:30'') = [Some 23, Some 30] \<and>
   within_calendar (clock sample_env) 30 \<and>
   credentials_error sample_env = None \<and> build_calendar_error sample_env = None \<and>
   (\<exists>d event_end.
      parse_relative_date (clock sample_env) ''saturday'' =
        Inr (day_window (ordinal (clock sample_env) + d)) \<and>
      Events_insert
        (event_body ''Appointment with Jane'' []
           \<lparr>ordinal = ordinal (clock sample_env) + d, hour = 23, minute = 30, second = 0,
             microsecond = 0\<rparr>
           event_end (local_tz_str (offset_hours (utcoffset sample_env))))
      \<in> set (snd (create_calendar_event sample_env
                 (sample_args\<lparr>date_description := Some ''saturday'', start_time := Some ''23:30''\<rparr>))))"
proof -
  let ?args = "sample_args\<lparr>date_description := Some ''saturday'', start_time := Some ''23:30''\<rparr>"
  have p: "map py_int (split_colon ''23:30'') = [Some 23, Some 30]"
    by (simp add: py_int_def int_literal_def int_space_def digit_value_def)
  then have p': "map py_int (split_colon (get (start_time ?args) ''09:00'')) = [Some 23, Some 30]"
    by (simp add: get_def)
  have w: "within_calendar (clock sample_env) 30"
    by (simp add: within_calendar_def sample_env_def wednesday_morning_def MAXORDINAL_def)
  then have w': "within_calendar (clock sample_env) (get (duration_minutes ?args) 60)"
    by (simp add: get_def sample_args_def)
  have c: "credentials_error sample_env = None" "build_calendar_error sample_env = None"
    by (simp_all add: sample_env_def)
  from no_business_hours_validation [OF p' _ _ _ _ w' c]
  have "\<exists>d event_end. 1 \<le> ordinal (clock sample_env) + d \<and>
      parse_relative_date (clock sample_env) (get (date_description ?args) ''today'') =
        Inr (day_window (ordinal (clock sample_env) + d)) \<and>
      Events_insert
        (event_body (get (title ?args) ''Untitled Event'') (get (description ?args) [])
           \<lparr>ordinal = ordinal (clock sample_env) + d, hour = 23, minute = 30, second = 0,
             microsecond = 0\<rparr>
           event_end (local_tz_str (offset_hours (utcoffset sample_env))))
      \<in> set (snd (create_calendar_event sample_env ?args))"
    by simp
  then have "\<exists>d event_end.
      parse_relative_date (clock sample_env) ''saturday'' =
        Inr (day_window (ordinal (clock sample_env) + d)) \<and>
      Events_insert
        (event_body ''Appointment with Jane'' []
           \<lparr>ordinal = ordinal (clock sample_env) + d, hour = 23, minute = 30, second = 0,
             microsecond = 0\<rparr>
           event_end (local_tz_str (offset_hours (utcoffset sample_env))))
      \<in> set (snd (create_calendar_event sample_env ?args))"
    by (simp add: get_def sample_args_def) blast
  with p w c show ?thesis by blast
qed

lemma send_confirmation_no_insert:
  "Events_insert body \<notin> set (snd (send_confirmation env address start_dt end_dt duration))"
  by (simp add: send_confirmation_def split: option.splits)

lemma submit_event_insert_body:
  assumes "Events_insert body \<in> set (snd (submit_event env summary details address duration start_dt end_dt trace))"
    and "Events_insert body \<notin> set trace"
  shows "body = event_body summary details start_dt end_dt (local_tz_str (offset_hours (utcoffset env)))"
proof -
  obtain sent mail_trace where
    s: "send_confirmation env address start_dt end_dt duration = (sent, mail_trace)"
    by (cases "send_confirmation env address start_dt end_dt duration")
  with send_confirmation_no_insert [of body env address start_dt end_dt duration]
  have "Events_insert body \<notin> set mail_trace" by simp
  with assms s show ?thesis
    by (auto simp: submit_event_def Let_def failed_create_def split: option.splits)
qed

lemma create_calendar_event_insert_body:
  assumes "Events_insert body \<in> set (snd (create_calendar_event env args))"
  shows "\<exists>summary details start_dt end_dt.
           body = event_body summary details start_dt end_dt
                    (local_tz_str (offset_hours (utcoffset env)))"
proof -
  let ?trace = "[Speak (''Booking your appointment for '' @ get (date_description args) ''today'')]"
  have t: "Events_insert body \<notin> set ?trace" by simp
  from assms obtain summary details address duration start_dt end_dt where
    "Events_insert body \<in> set (snd (submit_event env summary details address duration start_dt end_dt ?trace))"
    by (auto simp: create_calendar_event_def Let_def failed_create_def
        split: sum.splits prod.splits if_splits)
  from submit_event_insert_body [OF this t] show ?thesis by blast
qed

text \<open>
  Claim C9. The time zone of the entry that \<open>create_calendar_event\<close> sends to the calendar
  is the label of the local UTC offset in whole hours, the sign reversed: for the offset
  truncated toward zero to \<open>h\<close> hours the label is \<open>Etc/GMT-h\<close> when \<open>h\<close> is not negative
  and \<open>Etc/GMT+|h|\<close> when it is negative; the fraction of an hour is dropped.
\<close>

theorem timezone_label:
  "(Events_insert body \<in> set (snd (create_calendar_event env args)) \<longrightarrow>
      timeZone (ev_start body) = local_tz_str (offset_hours (utcoffset env)) \<and>
      timeZone (ev_end body) = local_tz_str (offset_hours (utcoffset env))) \<and>
   (0 \<le> offset_hours s \<longrightarrow>
      local_tz_str (offset_hours s) = ''Etc/GMT-'' @ str_int (offset_hours s)) \<and>
   (offset_hours s < 0 \<longrightarrow>
      local_tz_str (offset_hours s) = ''Etc/GMT+'' @ str_int \<bar>offset_hours s\<bar>) \<and>
   \<bar>offset_hours s\<bar> = \<bar>s\<bar> div 3600 \<and> (0 \<le> s \<longrightarrow> 0 \<le> offset_hours s) \<and>
   (s \<le> 0 \<longrightarrow> offset_hours s \<le> 0)"
proof (intro conjI impI)
  assume "Events_insert body \<in> set (snd (create_calendar_event env args))"
  from create_calendar_event_insert_body [OF this] obtain summary details start_dt end_dt where
    b: "body = event_body summary details start_dt end_dt
          (local_tz_str (offset_hours (utcoffset env)))"
    by blast
  show "timeZone (ev_start body) = local_tz_str (offset_hours (utcoffset env))"
    unfolding b by (simp add: event_body_def)
  show "timeZone (ev_end body) = local_tz_str (offset_hours (utcoffset env))"
    unfolding b by (simp add: event_body_def)
next
  assume "0 \<le> offset_hours s"
  then show "local_tz_str (offset_hours s) = ''Etc/GMT-'' @ str_int (offset_hours s)"
    by (simp add: local_tz_str_def)
next
  assume "offset_hours s < 0"
  then show "local_tz_str (offset_hours s) = ''Etc/GMT+'' @ str_int \<bar>offset_hours s\<bar>"
    by (simp add: local_tz_str_def)
next
  show "\<bar>offset_hours s\<bar> = \<bar>s\<bar> div 3600"
    by (simp add: offset_hours_def abs_if div_int_pos_iff)
next
  assume "0 \<le> s"
  then show "0 \<le> offset_hours s" by (simp add: offset_hours_def)
next
  assume "s \<le> 0"
  then show "offset_hours s \<le> 0"
    by (cases "s = 0") (simp_all add: offset_hours_def)
qed


lemma sample_booking:
  "create_calendar_event sample_env sample_args =
     (''Event created successfully: '' @ [CHR 0x27] @ ''Appointment with Jane'' @ [CHR 0x27] @
        '' on Friday, January 12 from 02:00 PM to 02:30 PM. Confirmation email sent to x@example.com'',
      [Speak ''Booking your appointment for friday'', Get_google_credentials, Build ''calendar'',
       Events_insert
         \<lparr>ev_summary = ''Appointment with Jane'', ev_description = [],
          ev_start = \<lparr>dateTime = ''2024-01-12T14:00:00'', timeZone = ''Etc/GMT-5''\<rparr>,
          ev_end = \<lparr>dateTime = ''2024-01-12T14:30:00'', timeZone = ''Etc/GMT-5''\<rparr>\<rparr>,
       Build ''gmail'',
       Messages_send
         \<lparr>mail_to = ''x@example.com'',
          mail_subject = ''Appointment Confirmation - January 12, 2024'',
          mail_date = ''Friday, January 12, 2024'',
          mail_time = ''02:00 PM - 02:30 PM'', mail_duration = ''30 minutes''\<rparr>,
       Result_callback
         (Text (''Event created successfully: '' @ [CHR 0x27] @ ''Appointment with Jane'' @
            [CHR 0x27] @
            '' on Friday, January 12 from 02:00 PM to 02:30 PM. Confirmation email sent to x@example.com''))])"
  by (simp add: create_calendar_event_def sample_env_def sample_args_def get_def sample_friday
      sample_start_time submit_event_def send_confirmation_def success_message_def
      event_body_def confirmation_mail_def sample_texts local_tz_str_def offset_hours_def
      strftime_B_d_Y_def strftime_A_B_d_Y_def sample_ymd month_name_def day_name_def weekday_def
      two_digits_def digit_char_def str_int_def Let_def)

theorem timezone_label_witness:
  "Events_insert
     \<lparr>ev_summary = ''Appointment with Jane'', ev_description = [],
      ev_start = \<lparr>dateTime = ''2024-01-12T14:00:00'', timeZone = ''Etc/GMT-5''\<rparr>,
      ev_end = \<lparr>dateTime = ''2024-01-12T14:30:00'', timeZone = ''Etc/GMT-5''\<rparr>\<rparr>
   \<in> set (snd (create_calendar_event sample_env sample_args)) \<and>
   local_tz_str (offset_hours (utcoffset sample_env)) = ''Etc/GMT-5'' \<and>
   0 \<le> offset_hours 19800 \<and> local_tz_str (offset_hours 19800) = ''Etc/GMT-5'' \<and>
   offset_hours (- 12600) < 0 \<and> local_tz_str (offset_hours (- 12600)) = ''Etc/GMT+3''"
proof -
  let ?body = "\<lparr>ev_summary = ''Appointment with Jane'', ev_description = [],
      ev_start = \<lparr>dateTime = ''2024-01-12T14:00:00'', timeZone = ''Etc/GMT-5''\<rparr>,
      ev_end = \<lparr>dateTime = ''2024-01-12T14:30:00'', timeZone = ''Etc/GMT-5''\<rparr>\<rparr>"
  have m: "Events_insert ?body \<in> set (snd (create_calendar_event sample_env sample_args))"
    by (simp add: sample_booking)
  have h: "offset_hours 19800 = 5" "offset_hours (- 12600) = - 3"
    by (simp_all add: offset_hours_def)
  from timezone_label [of ?body sample_env sample_args 19800] m
  have a: "local_tz_str (offset_hours (utcoffset sample_env)) = ''Etc/GMT-5''"
    by simp
  from timezone_label [of ?body sample_env sample_args 19800] h(1)
  have b: "local_tz_str (offset_hours 19800) = ''Etc/GMT-5''"
    by (simp add: str_int_def digit_char_def)
  from timezone_label [of ?body sample_env sample_args "- 12600"] h(2)
  have c: "local_tz_str (offset_hours (- 12600)) = ''Etc/GMT+3''"
    by (simp add: str_int_def digit_char_def)
  from m a b c h show ?thesis by simp
qed

section \<open>Properties of get_calendar_events\<close>

lemma filter_loop_append:
  assumes "\<forall>entry \<in> set entries.
      timed entry \<longrightarrow> converts conv (raw_start entry) \<and> converts conv (raw_end entry)"
  shows "filter_loop conv entries acc = Inr (acc @ map (timed_view conv) (filter timed entries))"
  using assms
proof (induction entries arbitrary: acc)
  case Nil
  then show ?case by simp
next
  case (Cons entry entries)
  then have ih: "\<And>acc'. filter_loop conv entries acc' =
      Inr (acc' @ map (timed_view conv) (filter timed entries))"
    by simp
  show ?case
  proof (cases "timed entry")
    case False
    then show ?thesis by (simp add: timed_def [symmetric] ih)
  next
    case True
    with Cons.prems have "converts conv (raw_start entry)" "converts conv (raw_end entry)"
      by simp_all
    then obtain a b where
      "conv (replace_Z (get (raw_start entry) [])) = Inr a"
      "conv (replace_Z (get (raw_end entry) [])) = Inr b"
      unfolding converts_def by (auto split: sum.splits)
    with True show ?thesis
      by (simp add: timed_def [symmetric] ih timed_view_def local_time_def)
  qed
qed

lemma filter_loop_fails:
  assumes "entry \<in> set entries" "timed entry"
    and "\<not> (converts conv (raw_start entry) \<and> converts conv (raw_end entry))"
  shows "\<exists>e. filter_loop conv entries acc = Inl e"
  using assms
proof (induction entries arbitrary: acc)
  case Nil
  then show ?case by simp
next
  case (Cons x xs)
  show ?case
  proof (cases "x = entry")
    case True
    with Cons.prems(2,3) show ?thesis
      by (auto simp: timed_def [symmetric] converts_def split: sum.splits)
  next
    case False
    with Cons.prems have "entry \<in> set xs" by simp
    from Cons.IH [OF this Cons.prems(2,3)] have "\<And>acc'. \<exists>e. filter_loop conv xs acc' = Inl e" .
    then show ?thesis
      by (auto simp: timed_def [symmetric] split: sum.splits)
  qed
qed

text \<open>
  Claim C7. The list that \<open>get_calendar_events\<close> returns holds exactly the raw entries that
  have a start and an end time of day (a non-empty \<open>dateTime\<close> under \<open>start\<close> and under
  \<open>end\<close>), in their input order, each with its summary and its start and end as 12-hour
  times; every entry that lacks one of the two, all-day entries among them, is left out,
  however many there are. The listing itself is assumed to succeed: the day window is
  resolved, its two ends convert to UTC, and the credentials, the service and the request
  return. The list is returned when the \<open>dateTime\<close> values of the timed entries convert,
  and whenever a list is returned it is this one.
\<close>

theorem listing_keeps_timed_entries:
  assumes "parse_relative_date (clock env) (get (date_description args) ''today'') =
             Inr (day_start, day_end)"
    and "to_utc_iso env day_start = Inr time_min" "to_utc_iso env day_end = Inr time_max"
    and "credentials_error env = None" "build_calendar_error env = None"
    and "list_result env = Inr entries"
  shows "((\<forall>entry \<in> set entries. timed entry \<longrightarrow>
             converts (fromisoformat_local env) (raw_start entry) \<and>
             converts (fromisoformat_local env) (raw_end entry)) \<longrightarrow>
          fst (get_calendar_events env args) =
            Json_events (map (timed_view (fromisoformat_local env)) (filter timed entries))) \<and>
         (\<forall>xs. fst (get_calendar_events env args) = Json_events xs \<longrightarrow>
            xs = map (timed_view (fromisoformat_local env)) (filter timed entries))"
proof -
  let ?conv = "fromisoformat_local env"
  let ?ok = "\<forall>entry \<in> set entries. timed entry \<longrightarrow>
      converts ?conv (raw_start entry) \<and> converts ?conv (raw_end entry)"
  have r: "fst (get_calendar_events env args) =
      (case filter_loop ?conv entries [] of
         Inl e \<Rightarrow> Text (''Error retrieving calendar events: '' @ str_e env e)
       | Inr filtered_events \<Rightarrow> Json_events filtered_events)"
    using assms
    by (simp add: get_calendar_events_def Let_def failed_list_def split: sum.splits)
  have good: "fst (get_calendar_events env args) =
      Json_events (map (timed_view ?conv) (filter timed entries))" if ?ok
    using filter_loop_append [OF that, of "[]"] r by simp
  have bad: "\<exists>t. fst (get_calendar_events env args) = Text t" if "\<not> ?ok"
  proof -
    from that obtain entry where "entry \<in> set entries" "timed entry"
      "\<not> (converts ?conv (raw_start entry) \<and> converts ?conv (raw_end entry))"
      by blast
    from filter_loop_fails [OF this, of "[]"] r show ?thesis by auto
  qed
  from good bad show ?thesis by (cases ?ok) auto
qed

lemma sample_window_utc:
  "to_utc_iso sample_env (midnight 738897) = Inr ''2024-01-11T18:30:00Z''"
  "to_utc_iso sample_env (midnight 738898) = Inr ''2024-01-12T18:30:00Z''"
  by (simp_all add: sample_env_def midnight_def add_minutes_def MAXORDINAL_def Let_def
      strftime_rfc3339_def ord2ymd_def days_before_month_def days_in_month_def str_int_def
      two_digits_def digit_char_def)

theorem listing_keeps_timed_entries_witness:
  "parse_relative_date (clock sample_env) ''friday'' = Inr (midnight 738897, midnight 738898) \<and>
   to_utc_iso sample_env (midnight 738897) = Inr ''2024-01-11T18:30:00Z'' \<and>
   to_utc_iso sample_env (midnight 738898) = Inr ''2024-01-12T18:30:00Z'' \<and>
   filter timed sample_entries = [sample_entries ! 0, sample_entries ! 2] \<and>
   fst (get_calendar_events
          (sample_env\<lparr>list_result := Inr sample_entries, fromisoformat_local := sample_conversion\<rparr>)
          sample_args) =
     Json_events
       [\<lparr>view_summary = ''Appointment with Jane'', view_start_time = ''02:00 PM'',
          view_end_time = ''02:30 PM''\<rparr>,
        \<lparr>view_summary = ''Untitled Event'', view_start_time = ''11:15 AM'',
          view_end_time = ''12:00 PM''\<rparr>]"
proof -
  let ?env = "sample_env\<lparr>list_result := Inr sample_entries, fromisoformat_local := sample_conversion\<rparr>"
  have p: "parse_relative_date (clock sample_env) ''friday'' = Inr (midnight 738897, midnight 738898)"
    using sample_friday by (simp add: sample_env_def)
  then have p': "parse_relative_date (clock ?env) (get (date_description sample_args) ''today'') =
      Inr (midnight 738897, midnight 738898)"
    by (simp add: get_def sample_args_def)
  have u: "to_utc_iso ?env (midnight 738897) = Inr ''2024-01-11T18:30:00Z''"
    "to_utc_iso ?env (midnight 738898) = Inr ''2024-01-12T18:30:00Z''"
    using sample_window_utc by simp_all
  have c: "credentials_error ?env = None" "build_calendar_error ?env = None"
    "list_result ?env = Inr sample_entries"
    by (simp_all add: sample_env_def)
  have k: "\<forall>entry \<in> set sample_entries. timed entry \<longrightarrow>
      converts sample_conversion (raw_start entry) \<and> converts sample_conversion (raw_end entry)"
    by code_simp
  have v: "map (timed_view sample_conversion) (filter timed sample_entries) =
      [\<lparr>view_summary = ''Appointment with Jane'', view_start_time = ''02:00 PM'',
         view_end_time = ''02:30 PM''\<rparr>,
       \<lparr>view_summary = ''Untitled Event'', view_start_time = ''11:15 AM'',
         view_end_time = ''12:00 PM''\<rparr>]"
    by code_simp
  have f: "fromisoformat_local ?env = sample_conversion" by simp
  from listing_keeps_timed_entries [OF p' u c]
  have "fst (get_calendar_events ?env sample_args) =
      Json_events (map (timed_view sample_conversion) (filter timed sample_entries))"
    unfolding f using k by blast
  then have "fst (get_calendar_events ?env sample_args) =
      Json_events
       [\<lparr>view_summary = ''Appointment with Jane'', view_start_time = ''02:00 PM'',
          view_end_time = ''02:30 PM''\<rparr>,
        \<lparr>view_summary = ''Untitled Event'', view_start_time = ''11:15 AM'',
          view_end_time = ''12:00 PM''\<rparr>]"
    unfolding v .
  moreover have "filter timed sample_entries = [sample_entries ! 0, sample_entries ! 2]"
    by code_simp
  ultimately show ?thesis using p sample_window_utc by blast
qed

section \<open>The confirmation mail and the result text\<close>

lemma startswith_iff: "startswith s p \<longleftrightarrow> (\<exists>b. s = p @ b)"
  by (induction s p rule: startswith.induct) auto

lemma contains_iff: "contains s p \<longleftrightarrow> (\<exists>a b. s = a @ p @ b)"
proof (induction s)
  case Nil
  then show ?case by auto
next
  case (Cons c cs)
  show ?case
  proof
    assume "contains (c # cs) p"
    then consider "startswith (c # cs) p" | "contains cs p" by auto
    then show "\<exists>a b. c # cs = a @ p @ b"
    proof cases
      case 1
      then obtain b where "c # cs = p @ b" by (auto simp: startswith_iff)
      then have "c # cs = [] @ p @ b" by simp
      then show ?thesis by blast
    next
      case 2
      with Cons.IH obtain a b where "cs = a @ p @ b" by blast
      then have "c # cs = (c # a) @ p @ b" by simp
      then show ?thesis by blast
    qed
  next
    assume "\<exists>a b. c # cs = a @ p @ b"
    then obtain a b where ab: "c # cs = a @ p @ b" by blast
    show "contains (c # cs) p"
    proof (cases a)
      case Nil
      with ab have "startswith (c # cs) p" by (auto simp: startswith_iff)
      then show ?thesis by simp
    next
      case (Cons x xs)
      with ab have "cs = xs @ p @ b" by simp
      with Cons.IH have "contains cs p" by blast
      then show ?thesis by simp
    qed
  qed
qed

lemma contains_head_in_set:
  assumes "contains s (c # p)"
  shows "c \<in> set s"
proof -
  from assms obtain a b where "s = a @ (c # p) @ b" by (auto simp: contains_iff)
  then show ?thesis by simp
qed

lemma contains_across_separator:
  assumes "q \<notin> set p"
  shows "contains (x @ q # y) p \<longleftrightarrow> contains x p \<or> contains y p"
proof
  assume "contains (x @ q # y) p"
  then obtain a b where ab: "x @ q # y = a @ p @ b" by (auto simp: contains_iff)
  then consider u where "a = x @ u" "q # y = u @ p @ b" | u where "x = a @ u" "u @ q # y = p @ b"
    by (auto simp: append_eq_append_conv2)
  then show "contains x p \<or> contains y p"
  proof cases
    case 1
    show ?thesis
    proof (cases u)
      case Nil
      with 1 assms show ?thesis by (cases p) (auto simp: contains_iff)
    next
      case (Cons v vs)
      with 1 have "y = vs @ p @ b" by simp
      then show ?thesis by (auto simp: contains_iff)
    qed
  next
    case 2
    from 2(2) consider w where "p = u @ w" "q # y = w @ b" | w where "u = p @ w" "w @ q # y = b"
      by (auto simp: append_eq_append_conv2)
    then show ?thesis
    proof cases
      case 1
      show ?thesis
      proof (cases w)
        case Nil
        with 1 2 have "x = a @ p @ []" by simp
        then show ?thesis unfolding contains_iff by blast
      next
        case (Cons v vs)
        with 1 have "q \<in> set p" by simp
        with assms show ?thesis by simp
      qed
    next
      case 2
      with \<open>x = a @ u\<close> have "x = a @ p @ w" by simp
      then show ?thesis unfolding contains_iff by blast
    qed
  qed
next
  assume "contains x p \<or> contains y p"
  then show "contains (x @ q # y) p"
  proof
    assume "contains x p"
    then obtain a b where "x = a @ p @ b" by (auto simp: contains_iff)
    then have "x @ q # y = a @ p @ (b @ q # y)" by simp
    then show ?thesis unfolding contains_iff by blast
  next
    assume "contains y p"
    then obtain a b where "y = a @ p @ b" by (auto simp: contains_iff)
    then have "x @ q # y = (x @ q # a) @ p @ b" by simp
    then show ?thesis unfolding contains_iff by blast
  qed
qed

lemma digit_char_in_digits: "digit_char n \<in> set ''0123456789''"
proof -
  have "n mod 10 < length ''0123456789''" by simp
  then have "''0123456789'' ! (n mod 10) \<in> set ''0123456789''" by (rule nth_mem)
  then show ?thesis unfolding digit_char_def .
qed

lemma digit_char_not_C: "digit_char n \<noteq> CHR ''C''"
  using digit_char_in_digits [of n] by auto

lemma two_digits_no_C: "CHR ''C'' \<notin> set (two_digits i)"
  using digit_char_not_C [of "nat i div 10"] digit_char_not_C [of "nat i"]
  by (simp add: two_digits_def)

lemma strftime_I_M_p_no_C: "CHR ''C'' \<notin> set (strftime_I_M_p d)"
  using two_digits_no_C [of "if hour d mod 12 = 0 then 12 else hour d mod 12"]
    two_digits_no_C [of "minute d"]
  by (simp add: strftime_I_M_p_def)

lemma day_name_no_C: "CHR ''C'' \<notin> set (day_name d)"
proof -
  let ?names = "[''Monday'', ''Tuesday'', ''Wednesday'', ''Thursday'', ''Friday'', ''Saturday'', ''Sunday'']"
  have "0 \<le> weekday d" "weekday d < 7" by (simp_all add: weekday_def)
  then have "nat (weekday d) < length ?names" by simp
  then have "?names ! nat (weekday d) \<in> set ?names" by (rule nth_mem)
  then have "day_name d \<in> set ?names" unfolding day_name_def .
  then show ?thesis by auto
qed

lemma month_name_no_C:
  assumes "1 \<le> m" "m \<le> 12"
  shows "CHR ''C'' \<notin> set (month_name m)"
proof -
  let ?names = "[''January'', ''February'', ''March'', ''April'', ''May'', ''June'', ''July'',
    ''August'', ''September'', ''October'', ''November'', ''December'']"
  from assms have "nat (m - 1) < length ?names" by simp
  then have "?names ! nat (m - 1) \<in> set ?names" by (rule nth_mem)
  then have "month_name m \<in> set ?names" unfolding month_name_def .
  then show ?thesis by auto
qed

lemma ord2ymd_month:
  "1 \<le> fst (snd (ord2ymd n)) \<and> fst (snd (ord2ymd n)) \<le> 12"
proof -
  define a where "a = (n - 1) mod 146097"
  define b where "b = a mod 36524"
  define c where "c = b mod 1461"
  define r where "r = c mod 365"
  define n100 where "n100 = a div 36524"
  define n4 where "n4 = b div 1461"
  define n1 where "n1 = c div 365"
  define y where "y = (n - 1) div 146097 * 400 + 1 + n100 * 100 + n4 * 4 + n1"
  define leap where "leap \<longleftrightarrow> n1 = 3 \<and> (n4 \<noteq> 24 \<or> n100 = 3)"
  define mo where "mo = (r + 50) div 32"
  define preceding where "preceding = days_before_month mo + (if 2 < mo \<and> leap then 1 else 0)"
  define before where
    "before = preceding - (days_in_month (mo - 1) + (if mo - 1 = 2 \<and> leap then 1 else 0))"
  have shape: "ord2ymd n =
      (if n1 = 4 \<or> n100 = 4 then (y - 1, 12, 31)
       else if r < preceding then (y, mo - 1, r - before + 1)
       else (y, mo, r - preceding + 1))"
    unfolding ord2ymd_def Let_def a_def b_def c_def r_def n100_def n4_def n1_def y_def leap_def
      mo_def preceding_def before_def
    by (rule refl)
  have r: "0 \<le> r" "r < 365" by (simp_all add: r_def)
  have "r + 50 = 32 * mo + (r + 50) mod 32" "0 \<le> (r + 50) mod 32" "(r + 50) mod 32 < 32"
    by (simp_all add: mo_def)
  with r have mo: "1 \<le> mo" "mo \<le> 12" by linarith+
  have second: "2 \<le> mo" if "r < preceding"
  proof (rule ccontr)
    assume "\<not> 2 \<le> mo"
    with mo have "mo = 1" by linarith
    then have "preceding = 0" by (simp add: preceding_def days_before_month_def)
    with that r show False by simp
  qed
  consider "n1 = 4 \<or> n100 = 4" | "\<not> (n1 = 4 \<or> n100 = 4)" "r < preceding"
    | "\<not> (n1 = 4 \<or> n100 = 4)" "\<not> r < preceding"
    by blast
  then show ?thesis
  proof cases
    case 1
    with shape show ?thesis by simp
  next
    case 2
    with shape have "fst (snd (ord2ymd n)) = mo - 1" by simp
    with second [OF 2(2)] mo show ?thesis by linarith
  next
    case 3
    with shape have "fst (snd (ord2ymd n)) = mo" by simp
    with mo show ?thesis by simp
  qed
qed

lemma strftime_A_B_d_no_C: "CHR ''C'' \<notin> set (strftime_A_B_d d)"
proof -
  obtain y m dd where o: "ord2ymd (ordinal d) = (y, m, dd)" by (cases "ord2ymd (ordinal d)")
  with ord2ymd_month [of "ordinal d"] have "1 \<le> m" "m \<le> 12" by simp_all
  then have "CHR ''C'' \<notin> set (month_name m)" by (rule month_name_no_C)
  with day_name_no_C [of d] two_digits_no_C [of dd] show ?thesis
    by (simp add: strftime_A_B_d_def o)
qed

lemma success_message_contains:
  assumes "\<not> contains summary confirmation_phrase"
  shows "\<not> contains (success_message summary start_dt end_dt) confirmation_phrase"
proof -
  let ?rest = "'' on '' @ strftime_A_B_d start_dt @ '' from '' @ strftime_I_M_p start_dt @
    '' to '' @ strftime_I_M_p end_dt"
  have q: "CHR 0x27 \<notin> set confirmation_phrase" by (simp add: confirmation_phrase_def)
  have m: "success_message summary start_dt end_dt =
      ''Event created successfully: '' @ CHR 0x27 # (summary @ CHR 0x27 # ?rest)"
    by (simp add: success_message_def)
  have p: "\<not> contains ''Event created successfully: '' confirmation_phrase"
    by (simp add: confirmation_phrase_def)
  have "CHR ''C'' \<notin> set ?rest"
    using strftime_A_B_d_no_C [of start_dt] strftime_I_M_p_no_C [of start_dt]
      strftime_I_M_p_no_C [of end_dt]
    by simp
  then have r: "\<not> contains ?rest confirmation_phrase"
    using contains_head_in_set [of ?rest "CHR ''C''" "''onfirmation email sent''"]
    by (auto simp: confirmation_phrase_def)
  show ?thesis
    unfolding m contains_across_separator [OF q] using p assms r by simp
qed

lemma send_confirmation_sent:
  "fst (send_confirmation env address start_dt end_dt duration) \<longleftrightarrow>
     address \<noteq> [] \<and> build_gmail_error env = None \<and> send_error env = None"
  by (simp add: send_confirmation_def split: option.splits)

lemma submit_event_success:
  assumes "credentials_error env = None" "build_calendar_error env = None" "insert_error env = None"
  shows "fst (submit_event env summary details address duration start_dt end_dt trace) =
           success_message summary start_dt end_dt @
           (if fst (send_confirmation env address start_dt end_dt duration)
            then ''. Confirmation email sent to '' @ address else [])"
  using assms by (simp add: submit_event_def Let_def split: prod.splits)

lemma success_message_start:
  "startswith (success_message summary start_dt end_dt @ rest) ''Event created successfully: ''"
  by (simp add: success_message_def)

lemma suffix_contains:
  "contains (x @ ''. Confirmation email sent to '' @ y) confirmation_phrase"
proof -
  have "x @ ''. Confirmation email sent to '' @ y =
      (x @ ''. '') @ confirmation_phrase @ ('' to '' @ y)"
    by (simp add: confirmation_phrase_def)
  then show ?thesis unfolding contains_iff by blast
qed

text \<open>
  Claim C5, amended. When the insertion into the calendar succeeds, the result of
  \<open>create_calendar_event\<close> is the success text, followed by
  \<open>. Confirmation email sent to <address>\<close> exactly when the mail went out. An exception of
  the mail service is swallowed: \<open>email_sent\<close> stays false, the booking still returns the
  success text, and the text then holds the words \<open>Confirmation email sent\<close> only if the
  title itself holds them.
\<close>

theorem notification_failure_swallowed:
  assumes "map py_int (split_colon (get (start_time args) ''09:00'')) = [Some h, Some m]"
    and "0 \<le> h" "h \<le> 23" "0 \<le> m" "m \<le> 59"
    and "within_calendar (clock env) (get (duration_minutes args) 60)"
    and "credentials_error env = None" "build_calendar_error env = None"
    and "insert_error env = None"
  shows "(\<exists>start_dt end_dt.
            fst (send_confirmation env (get (customer_email args) []) start_dt end_dt
                   (get (duration_minutes args) 60)) = mail_goes_out env args \<and>
            fst (create_calendar_event env args) =
              success_message (get (title args) ''Untitled Event'') start_dt end_dt @
              (if mail_goes_out env args
               then ''. Confirmation email sent to '' @ get (customer_email args) [] else [])) \<and>
         startswith (fst (create_calendar_event env args)) ''Event created successfully: '' \<and>
         (\<not> contains (get (title args) ''Untitled Event'') confirmation_phrase \<longrightarrow>
            (contains (fst (create_calendar_event env args)) confirmation_phrase \<longleftrightarrow>
             mail_goes_out env args))"
proof -
  let ?k = "get (duration_minutes args) 60"
  let ?address = "get (customer_email args) []"
  let ?summary = "get (title args) ''Untitled Event''"
  from assms(6) have w: "\<bar>?k\<bar> div 1440 + 4 \<le> ordinal (clock env)"
    "ordinal (clock env) + \<bar>?k\<bar> div 1440 + 10 \<le> MAXORDINAL"
    by (simp_all add: within_calendar_def)
  have k0: "0 \<le> \<bar>?k\<bar> div 1440" by simp
  with w have c: "clock_in_range (clock env)"
    unfolding clock_in_range_def by linarith
  from parse_relative_date_in_range [OF c, of "get (date_description args) ''today''"]
  obtain d where d: "- 1 \<le> d" "d \<le> 7"
    "parse_relative_date (clock env) (get (date_description args) ''today'') =
       Inr (day_window (ordinal (clock env) + d))"
    by blast
  let ?n = "ordinal (clock env) + d"
  have n: "\<bar>?k\<bar> div 1440 + 3 \<le> ?n" "?n + \<bar>?k\<bar> div 1440 + 2 \<le> MAXORDINAL"
    using w d(1,2) by linarith+
  let ?start = "\<lparr>ordinal = ?n, hour = h, minute = m, second = 0, microsecond = 0\<rparr>"
  from parse_start_time_valid [OF assms(1-5) n] obtain e where e:
    "parse_start_time (midnight ?n) (get (start_time args) ''09:00'') ?k = Inr (?start, e)" ..
  have "create_calendar_event env args =
      submit_event env ?summary (get (description args) []) ?address ?k ?start e
        [Speak (''Booking your appointment for '' @ get (date_description args) ''today'')]"
    using d(3) e by (simp add: create_calendar_event_def Let_def day_window_def)
  then have r: "fst (create_calendar_event env args) =
      success_message ?summary ?start e @
      (if fst (send_confirmation env ?address ?start e ?k)
       then ''. Confirmation email sent to '' @ ?address else [])"
    by (simp only: submit_event_success [OF assms(7-9)])
  have s: "fst (send_confirmation env ?address ?start e ?k) = mail_goes_out env args"
    by (simp only: send_confirmation_sent mail_goes_out_def)
  have r': "fst (create_calendar_event env args) =
      success_message ?summary ?start e @
      (if mail_goes_out env args then ''. Confirmation email sent to '' @ ?address else [])"
    using r unfolding s .
  have one: "\<exists>start_dt end_dt.
      fst (send_confirmation env ?address start_dt end_dt ?k) = mail_goes_out env args \<and>
      fst (create_calendar_event env args) =
        success_message ?summary start_dt end_dt @
        (if mail_goes_out env args then ''. Confirmation email sent to '' @ ?address else [])"
    using s r' by blast
  have two: "startswith (fst (create_calendar_event env args)) ''Event created successfully: ''"
    unfolding r' by (rule success_message_start)
  have three: "contains (fst (create_calendar_event env args)) confirmation_phrase \<longleftrightarrow>
      mail_goes_out env args"
    if t: "\<not> contains ?summary confirmation_phrase"
  proof (cases "mail_goes_out env args")
    case True
    then have "fst (create_calendar_event env args) =
        success_message ?summary ?start e @ ''. Confirmation email sent to '' @ ?address"
      using r' by simp
    with suffix_contains [of "success_message ?summary ?start e" ?address] True
    show ?thesis by simp
  next
    case False
    then have "fst (create_calendar_event env args) = success_message ?summary ?start e"
      using r' by simp
    with success_message_contains [OF t, of ?start e] False show ?thesis by simp
  qed
  from one two three show ?thesis by blast
qed

text \<open>
  Claim C5, as stated: with the title \<open>Confirmation email sent\<close> the sending fails and
  \<open>email_sent\<close> is false, yet the returned message contains \<open>Confirmation email sent\<close>,
  because the message quotes the title.
\<close>

theorem notification_failure_counterexample:
  "insert_error (sample_env\<lparr>send_error := Some (Raised ''quota exceeded'')\<rparr>) = None \<and>
   \<not> fst (send_confirmation (sample_env\<lparr>send_error := Some (Raised ''quota exceeded'')\<rparr>)
            ''x@example.com''
            \<lparr>ordinal = 738897, hour = 14, minute = 0, second = 0, microsecond = 0\<rparr>
            \<lparr>ordinal = 738897, hour = 14, minute = 30, second = 0, microsecond = 0\<rparr> 30) \<and>
   fst (create_calendar_event (sample_env\<lparr>send_error := Some (Raised ''quota exceeded'')\<rparr>)
          (sample_args\<lparr>title := Some ''Confirmation email sent''\<rparr>)) =
     ''Event created successfully: '' @ [CHR 0x27] @ ''Confirmation email sent'' @ [CHR 0x27] @
     '' on Friday, January 12 from 02:00 PM to 02:30 PM'' \<and>
   contains
     (fst (create_calendar_event (sample_env\<lparr>send_error := Some (Raised ''quota exceeded'')\<rparr>)
             (sample_args\<lparr>title := Some ''Confirmation email sent''\<rparr>)))
     ''Confirmation email sent''"
proof -
  let ?env = "sample_env\<lparr>send_error := Some (Raised ''quota exceeded'')\<rparr>"
  let ?args = "sample_args\<lparr>title := Some ''Confirmation email sent''\<rparr>"
  let ?start = "\<lparr>ordinal = 738897, hour = 14, minute = 0, second = 0, microsecond = 0\<rparr>"
  let ?end = "\<lparr>ordinal = 738897, hour = 14, minute = 30, second = 0, microsecond = 0\<rparr>"
  have i: "insert_error ?env = None" by (simp add: sample_env_def)
  have s: "\<not> fst (send_confirmation ?env ''x@example.com'' ?start ?end 30)"
    by (simp add: send_confirmation_def sample_env_def)
  have "create_calendar_event ?env ?args =
      submit_event ?env ''Confirmation email sent'' [] ''x@example.com'' 30 ?start ?end
        [Speak ''Booking your appointment for friday'']"
    by (simp add: create_calendar_event_def sample_env_def sample_args_def get_def sample_friday
        sample_start_time)
  then have "fst (create_calendar_event ?env ?args) =
      success_message ''Confirmation email sent'' ?start ?end"
    using s by (simp add: submit_event_success sample_env_def)
  then have r: "fst (create_calendar_event ?env ?args) =
      ''Event created successfully: '' @ [CHR 0x27] @ ''Confirmation email sent'' @ [CHR 0x27] @
      '' on Friday, January 12 from 02:00 PM to 02:30 PM''"
    by (simp add: success_message_def sample_texts)
  have "contains
      (''Event created successfully: '' @ [CHR 0x27] @ ''Confirmation email sent'' @ [CHR 0x27] @
       '' on Friday, January 12 from 02:00 PM to 02:30 PM'') ''Confirmation email sent''"
    by simp
  with i s r show ?thesis by simp
qed

theorem notification_failure_swallowed_witness:
  "map py_int (split_colon ''14:00'') = [Some 14, Some 0] \<and>
   within_calendar (clock sample_env) 30 \<and>
   insert_error (sample_env\<lparr>send_error := Some (Raised ''quota exceeded'')\<rparr>) = None \<and>
   \<not> mail_goes_out (sample_env\<lparr>send_error := Some (Raised ''quota exceeded'')\<rparr>) sample_args \<and>
   \<not> contains ''Appointment with Jane'' confirmation_phrase \<and>
   startswith
     (fst (create_calendar_event (sample_env\<lparr>send_error := Some (Raised ''quota exceeded'')\<rparr>)
             sample_args))
     ''Event created successfully: '' \<and>
   \<not> contains
     (fst (create_calendar_event (sample_env\<lparr>send_error := Some (Raised ''quota exceeded'')\<rparr>)
             sample_args))
     confirmation_phrase \<and>
   mail_goes_out sample_env sample_args \<and>
   contains (fst (create_calendar_event sample_env sample_args)) confirmation_phrase"
proof -
  let ?env = "sample_env\<lparr>send_error := Some (Raised ''quota exceeded'')\<rparr>"
  have p: "map py_int (split_colon ''14:00'') = [Some 14, Some 0]"
    by (simp add: py_int_def int_literal_def int_space_def digit_value_def)
  then have p': "map py_int (split_colon (get (start_time sample_args) ''09:00'')) = [Some 14, Some 0]"
    by (simp add: get_def sample_args_def)
  have w: "within_calendar (clock sample_env) 30"
    by (simp add: within_calendar_def sample_env_def wednesday_morning_def MAXORDINAL_def)
  then have w1: "within_calendar (clock ?env) (get (duration_minutes sample_args) 60)"
    and w2: "within_calendar (clock sample_env) (get (duration_minutes sample_args) 60)"
    by (simp_all add: get_def sample_args_def)
  have c1: "credentials_error ?env = None" "build_calendar_error ?env = None"
    "insert_error ?env = None"
    by (simp_all add: sample_env_def)
  have c2: "credentials_error sample_env = None" "build_calendar_error sample_env = None"
    "insert_error sample_env = None"
    by (simp_all add: sample_env_def)
  have g1: "\<not> mail_goes_out ?env sample_args"
    by (simp add: mail_goes_out_def)
  have g2: "mail_goes_out sample_env sample_args"
    by (simp add: mail_goes_out_def sample_env_def sample_args_def get_def)
  have t: "\<not> contains ''Appointment with Jane'' confirmation_phrase"
    by (simp add: confirmation_phrase_def)
  then have t': "\<not> contains (get (title sample_args) ''Untitled Event'') confirmation_phrase"
    by (simp add: get_def sample_args_def)
  have r: "(0::int) \<le> 14" "(14::int) \<le> 23" "(0::int) \<le> 0" "(0::int) \<le> 59" by simp_all
  from notification_failure_swallowed [OF p' r w1 c1] t' g1
  have a: "startswith (fst (create_calendar_event ?env sample_args)) ''Event created successfully: ''"
    and b: "\<not> contains (fst (create_calendar_event ?env sample_args)) confirmation_phrase"
    by blast+
  from notification_failure_swallowed [OF p' r w2 c2] t' g2
  have c: "contains (fst (create_calendar_event sample_env sample_args)) confirmation_phrase"
    by blast
  from p w c1(3) g1 t a b g2 c show ?thesis by blast
qed

end
